(* ===== verification/Prelude.thy ===== *)
theory Prelude
  imports Main
begin

text \<open>
  Shared vocabulary of the development. Python exceptions are values of the
  datatype \<open>exn\<close>; a statement that may raise and that changes the world of type
  \<open>'s\<close> is a function of type \<open>('s, 'a) eff\<close>, returning \<open>Inl e\<close> when it raises
  \<open>e\<close> and \<open>Inr v\<close> when it completes with value \<open>v\<close>, together with the world
  after it. \<open>bindE\<close> is sequential composition, which propagates a raised
  exception past the rest of the block as Python does; \<open>try_except\<close> is a
  \<^verbatim>\<open>try ... except Exception\<close> block. The collection \<open>eff_simps\<close> holds the
  rewrite rules that run a composed statement on a concrete outcome.
\<close>

named_theorems eff_simps "rules evaluating composed effectful statements"

type_synonym path = string
type_synonym bytes = "nat list"

text \<open>The exceptions the modelled code can raise or let through.\<close>

datatype exn =
    NameError string  \<comment> \<open>a name that was never bound is read\<close>
  | IndexError        \<comment> \<open>\<^verbatim>\<open>xs[0]\<close> on an empty list\<close>
  | LibError string   \<comment> \<open>an exception raised inside a library call\<close>

type_synonym ('s, 'a) eff = "'s \<Rightarrow> (exn + 'a) \<times> 's"

definition ret :: "'a \<Rightarrow> ('s, 'a) eff" where
  "ret x s = (Inr x, s)"

definition raise :: "exn \<Rightarrow> ('s, 'a) eff" where
  "raise e s = (Inl e, s)"

definition bindE :: "('s, 'a) eff \<Rightarrow> ('a \<Rightarrow> ('s, 'b) eff) \<Rightarrow> ('s, 'b) eff" where
  "bindE m f s = (case m s of (Inl e, s') \<Rightarrow> (Inl e, s') | (Inr a, s') \<Rightarrow> f a s')"

text \<open>A library call that may raise but does not touch the world.\<close>

definition lift :: "exn + 'a \<Rightarrow> ('s, 'a) eff" where
  "lift r s = (r, s)"

text \<open>A statement that only changes the world.\<close>

definition modify :: "('s \<Rightarrow> 's) \<Rightarrow> ('s, unit) eff" where
  "modify f s = (Inr (), f s)"

text \<open>\<^verbatim>\<open>try: body  except Exception as e: handler(e)\<close>\<close>

definition try_except :: "('s, 'a) eff \<Rightarrow> (exn \<Rightarrow> ('s, 'a) eff) \<Rightarrow> ('s, 'a) eff" where
  "try_except m h s = (case m s of (Inl e, s') \<Rightarrow> h e s' | (Inr a, s') \<Rightarrow> (Inr a, s'))"

text \<open>
  A statement that contains a loop may not return: \<open>('s, 'a) peff\<close> answers
  \<open>None\<close> then. \<open>bindP\<close> runs a statement that returns, then one that may
  not; \<open>try_exceptP\<close> wraps a statement that may not return in a handler.
\<close>

type_synonym ('s, 'a) peff = "'s \<Rightarrow> ((exn + 'a) \<times> 's) option"

definition total :: "('s, 'a) eff \<Rightarrow> ('s, 'a) peff" where
  "total m s = Some (m s)"

definition bindP :: "('s, 'a) eff \<Rightarrow> ('a \<Rightarrow> ('s, 'b) peff) \<Rightarrow> ('s, 'b) peff" where
  "bindP m f s = (case m s of (Inl e, s') \<Rightarrow> Some (Inl e, s') | (Inr a, s') \<Rightarrow> f a s')"

definition try_exceptP :: "('s, 'a) peff \<Rightarrow> (exn \<Rightarrow> ('s, 'a) eff) \<Rightarrow> ('s, 'a) peff" where
  "try_exceptP m h s =
     map_option (\<lambda>(r, s'). case r of Inl e \<Rightarrow> h e s' | Inr a \<Rightarrow> (Inr a, s')) (m s)"

text \<open>Python's \<^verbatim>\<open>xs[0]\<close>: IndexError on an empty list.\<close>

definition py_first :: "'a list \<Rightarrow> exn + 'a" where
  "py_first xs = (case xs of [] \<Rightarrow> Inl IndexError | x # _ \<Rightarrow> Inr x)"

text \<open>Python's \<^verbatim>\<open>xs[i]\<close> for \<open>i \<ge> 0\<close>.\<close>

definition py_nth :: "'a list \<Rightarrow> nat \<Rightarrow> exn + 'a" where
  "py_nth xs i = (if i < length xs then Inr (xs ! i) else Inl IndexError)"

text \<open>Reading a variable that may never have been assigned in this run.\<close>

definition py_bound :: "string \<Rightarrow> 'a option \<Rightarrow> exn + 'a" where
  "py_bound name v = (case v of None \<Rightarrow> Inl (NameError name) | Some x \<Rightarrow> Inr x)"

text \<open>Counting the elements of a log that satisfy a test.\<close>

abbreviation count_where :: "('a \<Rightarrow> bool) \<Rightarrow> 'a list \<Rightarrow> nat" where
  "count_where P xs \<equiv> length (filter P xs)"

subsection \<open>Running composed statements\<close>

lemma ret_apply [simp, eff_simps]: "ret x s = (Inr x, s)"
  by (simp add: ret_def)

lemma raise_apply [simp, eff_simps]: "raise e s = (Inl e, s)"
  by (simp add: raise_def)

lemma lift_apply [simp, eff_simps]: "lift r s = (r, s)"
  by (simp add: lift_def)

lemma modify_apply [simp, eff_simps]: "modify f s = (Inr (), f s)"
  by (simp add: modify_def)

lemma bindE_Inr [eff_simps]: "m s = (Inr a, s') \<Longrightarrow> bindE m f s = f a s'"
  by (simp add: bindE_def)

lemma bindE_Inl [eff_simps]: "m s = (Inl e, s') \<Longrightarrow> bindE m f s = (Inl e, s')"
  by (simp add: bindE_def)

lemma bindE_ret [simp, eff_simps]: "bindE (ret x) f = f x"
  by (simp add: bindE_def fun_eq_iff)

lemma bindE_lift_Inr [simp, eff_simps]: "bindE (lift (Inr x)) f = f x"
  by (simp add: bindE_def fun_eq_iff)

lemma bindE_lift_Inl [simp, eff_simps]: "bindE (lift (Inl e)) f = raise e"
  by (simp add: bindE_def fun_eq_iff)

lemma bindE_raise [simp, eff_simps]: "bindE (raise e) f = raise e"
  by (simp add: bindE_def fun_eq_iff)

lemma bindE_modify [simp, eff_simps]: "bindE (modify g) f s = f () (g s)"
  by (simp add: bindE_def)

lemma bindE_assoc [simp]: "bindE (bindE m f) g = bindE m (\<lambda>x. bindE (f x) g)"
  by (simp add: bindE_def fun_eq_iff split: prod.splits sum.splits)

lemma try_except_Inr [eff_simps]: "m s = (Inr a, s') \<Longrightarrow> try_except m h s = (Inr a, s')"
  by (simp add: try_except_def)

lemma try_except_Inl [eff_simps]: "m s = (Inl e, s') \<Longrightarrow> try_except m h s = h e s'"
  by (simp add: try_except_def)

lemma total_apply [simp, eff_simps]: "total m s = Some (m s)"
  by (simp add: total_def)

lemma bindP_Inr [eff_simps]: "m s = (Inr a, s') \<Longrightarrow> bindP m f s = f a s'"
  by (simp add: bindP_def)

lemma bindP_Inl [eff_simps]: "m s = (Inl e, s') \<Longrightarrow> bindP m f s = Some (Inl e, s')"
  by (simp add: bindP_def)

lemma bindP_modify [simp, eff_simps]: "bindP (modify g) f s = f () (g s)"
  by (simp add: bindP_def)

lemma try_exceptP_None [eff_simps]: "m s = None \<Longrightarrow> try_exceptP m h s = None"
  by (simp add: try_exceptP_def)

lemma try_exceptP_Inr [eff_simps]:
  "m s = Some (Inr a, s') \<Longrightarrow> try_exceptP m h s = Some (Inr a, s')"
  by (simp add: try_exceptP_def)

lemma try_exceptP_Inl [eff_simps]:
  "m s = Some (Inl e, s') \<Longrightarrow> try_exceptP m h s = Some (h e s')"
  by (simp add: try_exceptP_def)

lemma try_exceptP_returns: "try_exceptP m h s \<noteq> None \<longleftrightarrow> m s \<noteq> None"
  by (simp add: try_exceptP_def)

lemma py_bound_simps [simp]:
  "py_bound n None = Inl (NameError n)"
  "py_bound n (Some x) = Inr x"
  by (simp_all add: py_bound_def)

lemma py_first_simps [simp]:
  "py_first [] = Inl IndexError"
  "py_first (x # xs) = Inr x"
  by (simp_all add: py_first_def)

text \<open>
  A frame property of a composed statement: if every part keeps a property of
  the world, so does the whole, whether it completes or raises.
\<close>

lemma bindE_keeps:
  assumes "\<And>s. P s \<Longrightarrow> P (snd (m s))"
    and "\<And>a s. P s \<Longrightarrow> P (snd (f a s))"
    and "P s"
  shows "P (snd (bindE m f s))"
proof (cases "m s")
  case (Pair r s')
  from assms(1) [OF assms(3)] Pair have "P s'" by simp
  with Pair assms(2) show ?thesis by (cases r) (auto simp: bindE_def)
qed

lemma try_except_keeps:
  assumes "\<And>s. P s \<Longrightarrow> P (snd (m s))"
    and "\<And>e s. P s \<Longrightarrow> P (snd (h e s))"
    and "P s"
  shows "P (snd (try_except m h s))"
proof (cases "m s")
  case (Pair r s')
  from assms(1) [OF assms(3)] Pair have "P s'" by simp
  with Pair assms(2) show ?thesis by (cases r) (auto simp: try_except_def)
qed

end
