(* ===== verification/Vision.thy ===== *)
theory Vision
  imports Complex_Main Prelude
begin

text \<open>
  The data the code hands to and receives from its libraries (OpenCV, PIL,
  ultralytics) and those libraries' calls themselves. A frame or image is a
  raster of three-channel pixels; a detection result is the ultralytics
  \<^verbatim>\<open>Results\<close> object reduced to what the code reads from it: \<^verbatim>\<open>res[0].boxes\<close>
  and \<^verbatim>\<open>res[0].plot()\<close>. The third-party calls are not code of this repository:
  they are the fields of the record \<open>lib\<close>, so that every lemma about the
  application holds for every library behaviour, and the contracts the
  application relies on (\<open>predict_contract\<close>, \<open>resize_contract\<close>) are stated
  as explicit hypotheses.
\<close>

type_synonym pixel = "nat \<times> nat \<times> nat"

record img =
  img_w :: nat
  img_h :: nat
  img_px :: "pixel list list"

text \<open>The channel order an image is displayed with (\<^verbatim>\<open>st.image(..., channels=...)\<close>).\<close>

datatype chans = RGB | BGR

text \<open>
  \<^verbatim>\<open>arr[:, :, ::-1]\<close> on an H x W x 3 array: the channel axis of every pixel
  reversed, so that BGR data becomes RGB data and back.
\<close>

definition flip_channels :: "img \<Rightarrow> img" where
  "flip_channels im = im\<lparr>img_px := map (map (\<lambda>(b, g, r). (r, g, b))) (img_px im)\<rparr>"

text \<open>
  What a viewer sees: \<^verbatim>\<open>st.image\<close> reads the array in the declared channel order
  and shows it in RGB.
\<close>

definition shown_rgb :: "chans \<Rightarrow> img \<Rightarrow> img" where
  "shown_rgb ch im = (case ch of RGB \<Rightarrow> im | BGR \<Rightarrow> flip_channels im)"

type_synonym xywh = "rat \<times> rat \<times> rat \<times> rat"

text \<open>One detection: \<^verbatim>\<open>box.xywh\<close>, its class and its confidence.\<close>

record box =
  box_xywh :: xywh
  box_cls :: nat
  box_conf :: rat

text \<open>One element of the list \<^verbatim>\<open>model.predict\<close> returns.\<close>

record result =
  res_boxes :: "box list"
  res_plot :: img  \<comment> \<open>\<^verbatim>\<open>plot()\<close>: the annotated image, in BGR order\<close>

text \<open>
  A loaded model object (\<^verbatim>\<open>YOLO(model_path)\<close>): the object's identity, the path
  it was loaded from and the weights read from that path.
\<close>

record handle =
  h_obj :: nat
  h_path :: path
  h_weights :: nat

text \<open>An uploaded file (\<^verbatim>\<open>UploadedFile\<close>): its name and its bytes.\<close>

record upload =
  up_name :: string
  up_data :: bytes

text \<open>
  The library calls, as the code uses them:
  \<^item> \<open>yolo p\<close>: \<^verbatim>\<open>YOLO(p)\<close> reads the weights at \<open>p\<close> or raises;
  \<^item> \<open>predict_fn wt im c\<close>: \<^verbatim>\<open>model.predict(im, conf=c)\<close> for a model with weights \<open>wt\<close>;
  \<^item> \<open>resize_fn im (w, h)\<close>: \<^verbatim>\<open>cv2.resize(im, (w, h))\<close>;
  \<^item> \<open>pil_open u\<close>: \<^verbatim>\<open>Image.open(u)\<close>;
  \<^item> \<open>decode bs\<close>: the frames \<^verbatim>\<open>cv2.VideoCapture\<close> decodes from a file holding \<open>bs\<close>,
    up to the first failing read, or \<open>None\<close> when the file cannot be opened;
  \<^item> \<open>tmp_visible bs\<close>: the bytes a second reader finds in a
    \<^verbatim>\<open>NamedTemporaryFile\<close> after \<^verbatim>\<open>write(bs)\<close> without a flush;
  \<^item> \<open>camera\<close>: the frames successive reads of device 0 return (\<open>None\<close> when a
    read fails), or \<open>None\<close> when the device cannot be opened;
  \<^item> \<open>read_file p\<close>: \<^verbatim>\<open>open(p, "rb").read()\<close>, the bytes of a file relative to the
    working directory, or the \<^verbatim>\<open>OSError\<close> it raises.
\<close>

record lib =
  yolo :: "path \<Rightarrow> exn + nat"
  predict_fn :: "nat \<Rightarrow> img \<Rightarrow> rat \<Rightarrow> exn + result list"
  resize_fn :: "img \<Rightarrow> nat \<times> nat \<Rightarrow> exn + img"
  pil_open :: "upload \<Rightarrow> exn + img"
  decode :: "bytes \<Rightarrow> img list option"
  tmp_visible :: "bytes \<Rightarrow> bytes"
  camera :: "(nat \<Rightarrow> img option) option"
  read_file :: "path \<Rightarrow> exn + bytes"

text \<open>
  The contract of ultralytics' prediction on one image, as the spec states it:
  one result per input image, and only boxes at or above the threshold.
\<close>

definition predict_contract :: "lib \<Rightarrow> bool" where
  "predict_contract L \<longleftrightarrow>
     (\<forall>wt im c rs. predict_fn L wt im c = Inr rs \<longrightarrow>
        length rs = 1 \<and> (\<forall>b \<in> set (res_boxes (hd rs)). c \<le> box_conf b))"

text \<open>\<^verbatim>\<open>cv2.resize\<close> returns an image of the requested width and height.\<close>

definition resize_contract :: "lib \<Rightarrow> bool" where
  "resize_contract L \<longleftrightarrow>
     (\<forall>im w h im'. resize_fn L im (w, h) = Inr im' \<longrightarrow> img_w im' = w \<and> img_h im' = h)"

text \<open>
  A library for concrete scenarios, the one the spec's test scenario uses: a
  1280 x 720 frame, weights that load from every path, a stub model that
  finds no box and plots the frame unchanged, a resize that sets the size,
  a background file holding the four bytes of a PNG signature; the decoded
  video and the camera are parameters.
\<close>

definition stub_frame :: img where
  "stub_frame = \<lparr>img_w = 1280, img_h = 720, img_px = []\<rparr>"

definition stub_lib :: "img list option \<Rightarrow> (nat \<Rightarrow> img option) option \<Rightarrow> lib" where
  "stub_lib vid cam =
     \<lparr>yolo = (\<lambda>p. Inr 0),
      predict_fn = (\<lambda>wt im c. Inr [\<lparr>res_boxes = [], res_plot = im\<rparr>]),
      resize_fn = (\<lambda>im (w, h). Inr (im\<lparr>img_w := w, img_h := h\<rparr>)),
      pil_open = (\<lambda>u. Inr stub_frame),
      decode = (\<lambda>bs. vid),
      tmp_visible = id,
      camera = cam,
      read_file = (\<lambda>p. Inr [137, 80, 78, 71])\<rparr>"

text \<open>A loaded model object for the examples.\<close>

definition demo_handle :: handle where
  "demo_handle = \<lparr>h_obj = 0, h_path = ''weights/detection/yolov8n.pt'', h_weights = 0\<rparr>"

lemma flip_channels_involutive [simp]: "flip_channels (flip_channels im) = im"
  by (simp add: flip_channels_def comp_def case_prod_beta)

lemma flip_channels_dims [simp]:
  "img_w (flip_channels im) = img_w im" "img_h (flip_channels im) = img_h im"
  by (simp_all add: flip_channels_def)

end
