(* ===== verification/World.thy ===== *)
theory World
  imports Vision
begin

text \<open>
  The state a run of the application changes, and the framework primitives
  that change it. Streamlit renders what a script run emits; the model keeps
  the emitted elements in order in \<open>trace\<close>, with the model loads, the
  inference calls and the capture opens and releases interleaved where they
  happen. The world also holds what outlives a script run: the resource
  cache of \<^verbatim>\<open>@st.cache_resource\<close> (\<open>cache\<close>, with the counter \<open>next_obj\<close> of
  allocated model objects) and the table of OpenCV capture objects (\<open>caps\<close>),
  whose \<open>cap_opened\<close> flag is the OS-level device or decoder handle.
  Streamlit and OpenCV are libraries: their primitives are modelled from
  their documented behaviour, as far as the code relies on it.
\<close>

text \<open>Where an element is placed: the main area, a column, the expander, a placeholder.\<close>

datatype container = Main | Col1 | Col2 | Expander | Slot nat

datatype caption =
    CapUploaded   \<comment> \<open>caption of the uploaded image\<close>
  | CapResult     \<comment> \<open>caption of the detection result\<close>
  | CapVideo      \<comment> \<open>caption of a detected video frame\<close>

text \<open>The texts of the \<^verbatim>\<open>st.error\<close> calls of the source.\<close>

datatype message =
    MsgOnlyDetection          \<comment> \<open>only the detection task is implemented\<close>
  | MsgSelectModel            \<comment> \<open>please select a model in the sidebar\<close>
  | MsgLoadFailed path        \<comment> \<open>cannot load the model, check the path\<close>
  | MsgOnlyImageVideo         \<comment> \<open>only the image and video sources are implemented\<close>
  | MsgVideoError exn         \<comment> \<open>error while loading the video, with the exception\<close>

text \<open>The texts of the \<^verbatim>\<open>st.write\<close> calls.\<close>

datatype writing =
    TxtBox xywh               \<comment> \<open>position and size of one box\<close>
  | TxtNotUploaded            \<comment> \<open>no image uploaded yet\<close>
  | TxtExn exn                \<comment> \<open>an exception, written out\<close>

datatype imgsrc = FromUpload upload | FromArray img

text \<open>The two \<^verbatim>\<open>st.sidebar.header\<close> calls of the script.\<close>

datatype heading =
    HdModelConfig             \<comment> \<open>deep-learning model configuration\<close>
  | HdSourceConfig            \<comment> \<open>image/video configuration\<close>

datatype event =
    StError container message
  | StImage container imgsrc caption chans
  | StVideo upload
  | StWrite container writing
  | StEmpty nat                \<comment> \<open>a placeholder \<^verbatim>\<open>st.empty()\<close> is created\<close>
  | StException exn            \<comment> \<open>an exception that ended the script run\<close>
  | ModelLoad path             \<comment> \<open>\<^verbatim>\<open>YOLO(path)\<close> reads a weights file\<close>
  | Predict nat img rat        \<comment> \<open>\<^verbatim>\<open>predict\<close> called on a model object, an image, a threshold\<close>
  | CapOpen nat                \<comment> \<open>a capture object opened its source\<close>
  | CapRelease nat             \<comment> \<open>\<^verbatim>\<open>release()\<close> called on a capture object\<close>
  | CapFree nat                \<comment> \<open>a capture object destroyed while its source is open\<close>
  | StPageConfig               \<comment> \<open>\<^verbatim>\<open>st.set_page_config(...)\<close>\<close>
  | StStyle string             \<comment> \<open>the style block of \<^verbatim>\<open>st.markdown\<close>, by its background URL\<close>
  | StTitle                    \<comment> \<open>\<^verbatim>\<open>st.title(...)\<close>\<close>
  | StHeader heading           \<comment> \<open>\<^verbatim>\<open>st.sidebar.header(...)\<close>\<close>

text \<open>A \<^verbatim>\<open>cv2.VideoCapture\<close> object: whether its source is open, how many frames it has read.\<close>

record capture =
  cap_opened :: bool
  cap_pos :: nat
  cap_feed :: "nat \<Rightarrow> img option"

record world =
  trace :: "event list"
  cache :: "path \<rightharpoonup> handle"
  next_obj :: nat
  caps :: "nat \<rightharpoonup> capture"
  next_cap :: nat
  next_slot :: nat

subsection \<open>Streamlit elements\<close>

definition emit :: "event \<Rightarrow> (world, unit) eff" where
  "emit ev = modify (\<lambda>w. w\<lparr>trace := trace w @ [ev]\<rparr>)"

definition st_error :: "container \<Rightarrow> message \<Rightarrow> (world, unit) eff" where
  "st_error c m = emit (StError c m)"

definition st_image :: "container \<Rightarrow> imgsrc \<Rightarrow> caption \<Rightarrow> chans \<Rightarrow> (world, unit) eff" where
  "st_image c src cap ch = emit (StImage c src cap ch)"

definition st_write :: "container \<Rightarrow> writing \<Rightarrow> (world, unit) eff" where
  "st_write c t = emit (StWrite c t)"

definition st_video :: "upload \<Rightarrow> (world, unit) eff" where
  "st_video u = emit (StVideo u)"

text \<open>\<^verbatim>\<open>st.empty()\<close>: a fresh placeholder, which later elements replace in place.\<close>

definition st_empty :: "(world, nat) eff" where
  "st_empty w = (Inr (next_slot w), w\<lparr>trace := trace w @ [StEmpty (next_slot w)], next_slot := Suc (next_slot w)\<rparr>)"

subsection \<open>Streamlit widgets\<close>

text \<open>
  A widget returns the value the user chose in this run. \<^verbatim>\<open>st.selectbox\<close>
  returns the chosen option, the first one when the choice is out of range,
  and \<^verbatim>\<open>None\<close> for an empty option list; \<^verbatim>\<open>st.slider\<close> returns a value
  within its bounds.
\<close>

definition selectbox :: "'a list \<Rightarrow> nat \<Rightarrow> 'a option" where
  "selectbox opts i =
     (case opts of [] \<Rightarrow> None | _ \<Rightarrow> Some (opts ! (if i < length opts then i else 0)))"

definition slider :: "int \<Rightarrow> int \<Rightarrow> int \<Rightarrow> int" where
  "slider lo hi v = max lo (min hi v)"

text \<open>
  \<^verbatim>\<open>st.file_uploader(type=...)\<close> accepts a file whose extension, in lower case,
  is one of the listed types.
\<close>

definition lower_char :: "char \<Rightarrow> char" where
  "lower_char c =
     (let n = (of_char c :: nat) in if 65 \<le> n \<and> n \<le> 90 then char_of (n + 32) else c)"

definition file_ext :: "string \<Rightarrow> string" where
  "file_ext name =
     (if CHR ''.'' \<in> set name then map lower_char (rev (takeWhile (\<lambda>c. c \<noteq> CHR ''.'') (rev name)))
      else [])"

definition file_uploader :: "string list option \<Rightarrow> upload option \<Rightarrow> upload option" where
  "file_uploader types u =
     (case (types, u) of
        (Some ts, Some f) \<Rightarrow> (if file_ext (up_name f) \<in> set ts then Some f else None)
      | _ \<Rightarrow> u)"

subsection \<open>OpenCV capture objects\<close>

text \<open>
  \<^verbatim>\<open>cv2.VideoCapture(src)\<close> allocates a capture object; it is open when its
  source could be opened. A read returns the next frame of an open source, or
  nothing (\<^verbatim>\<open>success == False\<close>); \<^verbatim>\<open>release()\<close> closes the source.
\<close>

definition VideoCapture :: "(nat \<Rightarrow> img option) option \<Rightarrow> (world, nat) eff" where
  "VideoCapture src w =
     (let c = next_cap w;
          k = \<lparr>cap_opened = (src \<noteq> None), cap_pos = 0,
               cap_feed = (case src of None \<Rightarrow> (\<lambda>_. None) | Some f \<Rightarrow> f)\<rparr>
      in (Inr c, w\<lparr>caps := (caps w)(c \<mapsto> k), next_cap := Suc c,
                  trace := trace w @ (if src \<noteq> None then [CapOpen c] else [])\<rparr>))"

definition cap_isOpened :: "nat \<Rightarrow> world \<Rightarrow> bool" where
  "cap_isOpened c w = (case caps w c of Some k \<Rightarrow> cap_opened k | None \<Rightarrow> False)"

definition cap_read :: "nat \<Rightarrow> world \<Rightarrow> img option \<times> world" where
  "cap_read c w =
     (case caps w c of
        Some k \<Rightarrow>
          (if cap_opened k then
             (case cap_feed k (cap_pos k) of
                Some im \<Rightarrow> (Some im, w\<lparr>caps := (caps w)(c \<mapsto> k\<lparr>cap_pos := Suc (cap_pos k)\<rparr>)\<rparr>)
              | None \<Rightarrow> (None, w))
           else (None, w))
      | None \<Rightarrow> (None, w))"

definition cap_release :: "nat \<Rightarrow> world \<Rightarrow> world" where
  "cap_release c w =
     (case caps w c of
        Some k \<Rightarrow> w\<lparr>caps := (caps w)(c \<mapsto> k\<lparr>cap_opened := False\<rparr>), trace := trace w @ [CapRelease c]\<rparr>
      | None \<Rightarrow> w\<lparr>trace := trace w @ [CapRelease c]\<rparr>)"

text \<open>
  The destructor of a capture object (\<^verbatim>\<open>~VideoCapture\<close>), run when CPython
  frees it: it releases the source if it is still open, and does nothing
  otherwise.
\<close>

definition cap_free :: "nat \<Rightarrow> world \<Rightarrow> world" where
  "cap_free c w =
     (case caps w c of
        Some k \<Rightarrow>
          (if cap_opened k
           then w\<lparr>caps := (caps w)(c \<mapsto> k\<lparr>cap_opened := False\<rparr>), trace := trace w @ [CapFree c]\<rparr>
           else w)
      | None \<Rightarrow> w)"

text \<open>
  A Python function whose locals hold capture objects: when the call returns,
  CPython's reference counting frees the capture objects it created (the
  handles from \<open>next_cap\<close> before the call to \<open>next_cap\<close> after it), and each
  destructor runs. The handlers keep their captures in locals only.
\<close>

definition local_scope :: "(world, 'a) peff \<Rightarrow> (world, 'a) peff" where
  "local_scope m w = map_option (\<lambda>(r, w'). (r, fold cap_free [next_cap w..<next_cap w'] w')) (m w)"

text \<open>The frames of a decoded file, read one after the other.\<close>

definition list_feed :: "img list \<Rightarrow> nat \<Rightarrow> img option" where
  "list_feed frs i = (if i < length frs then Some (frs ! i) else None)"

text \<open>Capture objects whose source is still open: the handles not yet released.\<close>

definition open_caps :: "world \<Rightarrow> nat set" where
  "open_caps w = {c. cap_isOpened c w}"

subsection \<open>The page as the viewer sees it\<close>

text \<open>
  A placeholder shows the last element put into it; every other element stays
  where it was emitted. \<open>page_size\<close> counts what the page shows.
\<close>

fun slot_shows :: "event list \<Rightarrow> nat \<Rightarrow> event option" where
  "slot_shows [] k = None"
| "slot_shows (ev # evs) k =
     (case slot_shows evs k of
        Some e \<Rightarrow> Some e
      | None \<Rightarrow> (case ev of StImage (Slot j) _ _ _ \<Rightarrow> if j = k then Some ev else None | _ \<Rightarrow> None))"

fun page_element :: "event \<Rightarrow> bool" where
  "page_element (StError _ _) = True"
| "page_element (StImage c _ _ _) = (case c of Slot _ \<Rightarrow> False | _ \<Rightarrow> True)"
| "page_element (StVideo _) = True"
| "page_element (StWrite _ _) = True"
| "page_element (StEmpty _) = True"
| "page_element (StException _) = True"
| "page_element StTitle = True"
| "page_element (StHeader _) = True"
| "page_element _ = False"

definition page_size :: "event list \<Rightarrow> nat" where
  "page_size evs = count_where page_element evs"

text \<open>Kinds of events, for counting them in a trace.\<close>

fun is_predict :: "event \<Rightarrow> bool" where
  "is_predict (Predict _ _ _) = True"
| "is_predict _ = False"

fun is_slot_image :: "nat \<Rightarrow> event \<Rightarrow> bool" where
  "is_slot_image k (StImage (Slot j) _ _ _) = (j = k)"
| "is_slot_image k _ = False"

fun is_release :: "nat \<Rightarrow> event \<Rightarrow> bool" where
  "is_release c (CapRelease d) = (c = d)"
| "is_release c _ = False"

fun is_error :: "event \<Rightarrow> bool" where
  "is_error (StError _ _) = True"
| "is_error (StException _) = True"
| "is_error _ = False"

text \<open>The world when the server process starts: nothing cached, no capture, an empty page.\<close>

definition init_world :: world where
  "init_world = \<lparr>trace = [], cache = Map.empty, next_obj = 0, caps = Map.empty, next_cap = 0, next_slot = 0\<rparr>"

text \<open>
  How a statement may change the world: it only appends events satisfying
  \<open>P\<close> to the log and leaves the model cache and the object counter alone
  (captures and placeholders may change).
\<close>

definition appends :: "(event \<Rightarrow> bool) \<Rightarrow> world \<Rightarrow> world \<Rightarrow> bool" where
  "appends P w w' \<longleftrightarrow>
     (\<exists>new. trace w' = trace w @ new \<and> list_all P new) \<and> cache w' = cache w \<and> next_obj w' = next_obj w"

text \<open>
  The events a source handler (\<^verbatim>\<open>infer_uploaded_*\<close>) called with threshold
  \<open>c\<close> may emit: inference calls at exactly \<open>c\<close>, and no error other than the
  handlers' own \<^verbatim>\<open>st.error\<close>; never a model load or an uncaught exception.
\<close>

fun handler_event :: "rat \<Rightarrow> event \<Rightarrow> bool" where
  "handler_event c (Predict _ _ c') = (c' = c)"
| "handler_event c (StError _ m) = (case m of MsgVideoError _ \<Rightarrow> True | _ \<Rightarrow> False)"
| "handler_event c (ModelLoad _) = False"
| "handler_event c (StException _) = False"
| "handler_event c _ = True"

text \<open>
  The events a whole script run with threshold \<open>c\<close> may emit: a handler's,
  and the sidebar's and loader's errors, model loads and an uncaught exception.
\<close>

fun run_event :: "rat \<Rightarrow> event \<Rightarrow> bool" where
  "run_event c (StError Main MsgSelectModel) = True"
| "run_event c (StError Main (MsgLoadFailed _)) = True"
| "run_event c (ModelLoad _) = True"
| "run_event c (StException _) = True"
| "run_event c ev = handler_event c ev"

subsection \<open>Reading from a capture\<close>

lemma cap_read_next:
  "caps w c = Some k \<Longrightarrow> cap_opened k \<Longrightarrow> cap_feed k (cap_pos k) = Some fr \<Longrightarrow>
   cap_read c w = (Some fr, w\<lparr>caps := (caps w)(c \<mapsto> k\<lparr>cap_pos := Suc (cap_pos k)\<rparr>)\<rparr>)"
  by (simp add: cap_read_def)

lemma cap_read_end:
  "caps w c = Some k \<Longrightarrow> cap_feed k (cap_pos k) = None \<Longrightarrow> cap_read c w = (None, w)"
  by (simp add: cap_read_def)

lemma cap_free_closed: "caps w c = Some k \<Longrightarrow> \<not> cap_opened k \<Longrightarrow> cap_free c w = w"
  by (simp add: cap_free_def)

lemma cap_free_open:
  "caps w c = Some k \<Longrightarrow> cap_opened k \<Longrightarrow>
   cap_free c w = w\<lparr>caps := (caps w)(c \<mapsto> k\<lparr>cap_opened := False\<rparr>), trace := trace w @ [CapFree c]\<rparr>"
  by (simp add: cap_free_def)

lemma local_scope_Some:
  "m w = Some (r, w') \<Longrightarrow> local_scope m w = Some (r, fold cap_free [next_cap w..<next_cap w'] w')"
  by (simp add: local_scope_def)

lemma local_scope_returns: "local_scope m w \<noteq> None \<longleftrightarrow> m w \<noteq> None"
  by (simp add: local_scope_def)

lemma cap_isOpened_Some: "caps w c = Some k \<Longrightarrow> cap_isOpened c w = cap_opened k"
  by (simp add: cap_isOpened_def)

subsection \<open>The page and the decoded frames\<close>

text \<open>What a placeholder shows after more events: the newer content wins.\<close>

lemma slot_shows_append:
  "slot_shows (xs @ ys) k = (case slot_shows ys k of Some e \<Rightarrow> Some e | None \<Rightarrow> slot_shows xs k)"
  by (induction xs) (simp_all split: option.splits)

lemma list_feed_prefix_at:
  "\<forall>i < length (pre @ [bad]). list_feed (pre @ bad # rest) (0 + i) = Some ((pre @ [bad]) ! i)"
  by (auto simp: list_feed_def nth_append less_Suc_eq)

subsection \<open>Widgets\<close>

lemma selectbox_single [simp]: "selectbox [x] i = Some x"
  by (simp add: selectbox_def)

lemma selectbox_nth: "i < length xs \<Longrightarrow> selectbox xs i = Some (xs ! i)"
  by (cases xs) (simp_all add: selectbox_def)

subsection \<open>Statements that only append to the log\<close>

lemma handler_event_run_event: "handler_event c ev \<Longrightarrow> run_event c ev"
  by (induction c ev rule: run_event.induct) simp_all

lemma appends_refl [simp]: "appends P w w"
  by (auto simp: appends_def)

lemma appends_trans: "appends P w1 w2 \<Longrightarrow> appends P w2 w3 \<Longrightarrow> appends P w1 w3"
  by (auto simp: appends_def)

lemma appends_emit: "P ev \<Longrightarrow> appends P w (w\<lparr>trace := trace w @ [ev]\<rparr>)"
  by (auto simp: appends_def)

lemma appends_events: "list_all P evs \<Longrightarrow> appends P w (w\<lparr>trace := trace w @ evs\<rparr>)"
  by (auto simp: appends_def)

lemma appends_snoc: "appends P w w' \<Longrightarrow> P ev \<Longrightarrow> appends P w (w'\<lparr>trace := trace w' @ [ev]\<rparr>)"
  by (auto simp: appends_def)

lemma appends_mono: "appends P w w' \<Longrightarrow> (\<And>ev. P ev \<Longrightarrow> Q ev) \<Longrightarrow> appends Q w w'"
  by (auto simp: appends_def list_all_iff)

lemma cap_read_appends: "appends P w (snd (cap_read c w))"
  by (auto simp: cap_read_def appends_def split: option.splits)

lemma cap_free_appends: "P (CapFree c) \<Longrightarrow> appends P w (cap_free c w)"
  by (auto simp: cap_free_def appends_def split: option.splits)

lemma fold_cap_free_appends: "(\<And>c. P (CapFree c)) \<Longrightarrow> appends P w (fold cap_free cs w)"
proof (induction cs arbitrary: w)
  case (Cons c cs)
  have "appends P w (cap_free c w)" by (rule cap_free_appends) (rule Cons.prems)
  moreover have "appends P (cap_free c w) (fold cap_free cs (cap_free c w))"
    by (rule Cons.IH) (rule Cons.prems)
  ultimately show ?case by (simp add: appends_trans [of P w])
qed simp

lemma local_scope_appends:
  assumes "local_scope m w = Some r" "\<And>r0. m w = Some r0 \<Longrightarrow> appends P w (snd r0)"
    and "\<And>c. P (CapFree c)"
  shows "appends P w (snd r)"
proof -
  obtain r0 w0 where m: "m w = Some (r0, w0)"
    using assms(1) by (cases "m w") (auto simp: local_scope_def)
  with assms(1) have r: "r = (r0, fold cap_free [next_cap w..<next_cap w0] w0)"
    by (simp add: local_scope_def)
  from assms(2) [OF m] have "appends P w w0" by simp
  moreover have "appends P w0 (fold cap_free [next_cap w..<next_cap w0] w0)"
    by (rule fold_cap_free_appends) (rule assms(3))
  ultimately show ?thesis using r by (simp add: appends_trans [of P w w0])
qed

lemma cap_release_appends: "P (CapRelease c) \<Longrightarrow> appends P w (cap_release c w)"
  by (auto simp: cap_release_def appends_def split: option.splits)

end
