(* ===== verification/Config.thy ===== *)
theory Config
  imports World
begin

text \<open>
  The module \<^verbatim>\<open>config\<close> the application imports is not part of the sources:
  it is modelled from the spec. It names the directory of the weights files,
  the weights files offered for detection and the data sources offered in
  the sidebar (image, video, camera, in this order: the application tests
  \<^verbatim>\<open>SOURCES_LIST[0]\<close>, \<^verbatim>\<open>[1]\<close> and \<^verbatim>\<open>[2]\<close> against the choice).
  \<open>config_wf\<close> is what the application assumes of it: three distinct
  sources.
\<close>

record config =
  DETECTION_MODEL_DIR :: path
  DETECTION_MODEL_LIST :: "string list"
  SOURCES_LIST :: "string list"

definition config_wf :: "config \<Rightarrow> bool" where
  "config_wf cfg \<longleftrightarrow> length (SOURCES_LIST cfg) = 3 \<and> distinct (SOURCES_LIST cfg)"

text \<open>A configuration as the spec describes it.\<close>

definition default_config :: config where
  "default_config =
     \<lparr>DETECTION_MODEL_DIR = ''weights/detection'',
      DETECTION_MODEL_LIST = [''yolov8n.pt''],
      SOURCES_LIST = [''image'', ''video'', ''webcam'']\<rparr>"

text \<open>
  \<^verbatim>\<open>Path(d, n)\<close> of pathlib: \<open>n\<close> below \<open>d\<close>, unless \<open>n\<close> is absolute, in
  which case it replaces \<open>d\<close>.
\<close>

definition py_Path :: "path \<Rightarrow> string \<Rightarrow> path" where
  "py_Path d n =
     (case n of CHR ''/'' # _ \<Rightarrow> n | _ \<Rightarrow> (if d = [] then n else d @ ''/'' @ n))"

lemma default_config_wf: "config_wf default_config"
  by (simp add: config_wf_def default_config_def)

end
