(* ===== verification/Loader.thy ===== *)
theory Loader
  imports World
begin

text \<open>
  The model loader (\<^verbatim>\<open>load_model\<close> in \<^verbatim>\<open>src/utils.py\<close>) under the decorator
  \<^verbatim>\<open>@st.cache_resource\<close>. The cache is keyed by the path and outlives a script
  run; a hit returns the object built earlier, a miss runs the body
  \<^verbatim>\<open>YOLO(model_path)\<close>, which reads the weights file (event \<open>ModelLoad\<close>) and
  allocates a new model object. An exception of the body is passed to the
  caller and nothing is cached, so a later call tries the load again.
  The invariant \<open>cache_wf\<close> says that the cache maps each path to an object
  loaded from that path, allocated earlier, and distinct paths to distinct
  objects.
\<close>

definition load_model :: "lib \<Rightarrow> path \<Rightarrow> (world, handle) eff" where
  "load_model L model_path w =
     (case cache w model_path of
        Some h \<Rightarrow> (Inr h, w)
      | None \<Rightarrow>
          (let w1 = w\<lparr>trace := trace w @ [ModelLoad model_path]\<rparr> in
           case yolo L model_path of
             Inl e \<Rightarrow> (Inl e, w1)
           | Inr wt \<Rightarrow>
               (let h = \<lparr>h_obj = next_obj w, h_path = model_path, h_weights = wt\<rparr>
                in (Inr h, w1\<lparr>cache := (cache w)(model_path \<mapsto> h), next_obj := Suc (next_obj w)\<rparr>))))"

definition cache_wf :: "world \<Rightarrow> bool" where
  "cache_wf w \<longleftrightarrow>
     (\<forall>p h. cache w p = Some h \<longrightarrow> h_path h = p \<and> h_obj h < next_obj w) \<and>
     (\<forall>p q h g. cache w p = Some h \<longrightarrow> cache w q = Some g \<longrightarrow> h_obj h = h_obj g \<longrightarrow> p = q)"

text \<open>
  The script calls the loader once per run; \<open>load_seq\<close> runs it for the
  model paths of successive runs, in order.
\<close>

fun load_seq :: "lib \<Rightarrow> path list \<Rightarrow> world \<Rightarrow> world" where
  "load_seq L [] w = w"
| "load_seq L (p # ps) w = load_seq L ps (snd (load_model L p w))"

subsection \<open>Behaviour on each branch\<close>

lemma load_model_hit:
  "cache w p = Some h \<Longrightarrow> load_model L p w = (Inr h, w)"
  by (simp add: load_model_def Let_def)

lemma load_model_miss_ok:
  "cache w p = None \<Longrightarrow> yolo L p = Inr wt \<Longrightarrow>
   load_model L p w =
     (Inr \<lparr>h_obj = next_obj w, h_path = p, h_weights = wt\<rparr>,
      w\<lparr>trace := trace w @ [ModelLoad p],
        cache := (cache w)(p \<mapsto> \<lparr>h_obj = next_obj w, h_path = p, h_weights = wt\<rparr>),
        next_obj := Suc (next_obj w)\<rparr>)"
  by (simp add: load_model_def Let_def)

lemma load_model_miss_err:
  "cache w p = None \<Longrightarrow> yolo L p = Inl e \<Longrightarrow>
   load_model L p w = (Inl e, w\<lparr>trace := trace w @ [ModelLoad p]\<rparr>)"
  by (simp add: load_model_def Let_def)

lemmas load_model_cases = load_model_hit load_model_miss_ok load_model_miss_err

text \<open>What a call leaves unchanged: the captures, the placeholders, and the log up to its end.\<close>

lemma load_model_frame:
  assumes "load_model L p w = (r, w')"
  shows "caps w' = caps w" "next_cap w' = next_cap w" "next_slot w' = next_slot w"
    and "\<exists>evs. trace w' = trace w @ evs \<and> set evs \<subseteq> {ModelLoad p}"
  using assms by (auto simp: load_model_def Let_def split: option.splits sum.splits)

lemma load_model_result_cached:
  "load_model L p w = (Inr h, w') \<Longrightarrow> cache w' p = Some h"
  by (auto simp: load_model_def Let_def split: option.splits sum.splits)

lemma load_model_cache_mono:
  "load_model L p w = (r, w') \<Longrightarrow> cache w q = Some h \<Longrightarrow> cache w' q = Some h"
  by (auto simp: load_model_def Let_def split: option.splits sum.splits)

lemma load_model_trace:
  "trace (snd (load_model L q w)) = trace w @ (if cache w q = None then [ModelLoad q] else [])"
  by (auto simp: load_model_def Let_def split: option.splits sum.splits)

lemma load_model_cache_at:
  "cache (snd (load_model L q w)) p =
     (if p = q \<and> cache w q = None then
        (case yolo L q of Inr wt \<Rightarrow> Some \<lparr>h_obj = next_obj w, h_path = q, h_weights = wt\<rparr> | Inl _ \<Rightarrow> None)
      else cache w p)"
  by (auto simp: load_model_def Let_def split: option.splits sum.splits)

lemma load_seq_trace_cached:
  "cache w p \<noteq> None \<Longrightarrow>
   \<exists>new. trace (load_seq L ps w) = trace w @ new \<and> count_where ((=) (ModelLoad p)) new = 0"
proof (induction ps arbitrary: w)
  case Nil
  then show ?case by simp
next
  case (Cons q ps)
  from Cons.prems have "cache (snd (load_model L q w)) p \<noteq> None"
    by (auto simp: load_model_cache_at split: sum.splits)
  from Cons.IH [OF this] obtain new where
    "trace (load_seq L ps (snd (load_model L q w))) = trace (snd (load_model L q w)) @ new"
    "count_where ((=) (ModelLoad p)) new = 0" by blast
  with Cons.prems show ?case
    by (auto simp: load_model_trace)
qed

text \<open>A call keeps the cache invariant, on every branch.\<close>

lemma load_model_cache_wf:
  assumes "cache_wf w" and "load_model L p w = (r, w')"
  shows "cache_wf w'"
proof (cases "cache w p")
  case (Some h)
  with assms show ?thesis by (simp add: load_model_hit)
next
  case None
  show ?thesis
  proof (cases "yolo L p")
    case (Inl e)
    with None assms show ?thesis by (auto simp: load_model_miss_err cache_wf_def)
  next
    case (Inr wt)
    with None assms(2) have w': "w' = w\<lparr>trace := trace w @ [ModelLoad p],
        cache := (cache w)(p \<mapsto> \<lparr>h_obj = next_obj w, h_path = p, h_weights = wt\<rparr>),
        next_obj := Suc (next_obj w)\<rparr>"
      by (simp add: load_model_miss_ok)
    from assms(1) have old: "cache w q = Some g \<Longrightarrow> h_path g = q \<and> h_obj g < next_obj w" for q g
      by (simp add: cache_wf_def)
    show ?thesis
      using assms(1) old None unfolding w' cache_wf_def
      by (auto simp: less_Suc_eq) (metis less_irrefl)+
  qed
qed

subsection \<open>The cache\<close>

text \<open>
  C6. Calling the loader again with a path it has loaded returns the very same
  model object and changes nothing: no second read of the weights file.
\<close>

theorem load_model_second_call_identical:
  assumes "load_model L p w = (Inr h, w1)"
  shows "load_model L p w1 = (Inr h, w1)"
  using load_model_result_cached [OF assms] by (rule load_model_hit)

theorem load_model_second_call_identical_witness:
  "\<exists>h w1. load_model (stub_lib None None) ''weights/detection/yolov8n.pt'' init_world = (Inr h, w1) \<and>
          load_model (stub_lib None None) ''weights/detection/yolov8n.pt'' w1 = (Inr h, w1)"
proof -
  obtain r w1 where eq: "load_model (stub_lib None None) ''weights/detection/yolov8n.pt'' init_world = (r, w1)"
    by fastforce
  moreover have "r = Inr \<lparr>h_obj = 0, h_path = ''weights/detection/yolov8n.pt'', h_weights = 0\<rparr>"
    using eq by (simp add: load_model_def init_world_def stub_lib_def Let_def)
  ultimately show ?thesis
    using load_model_second_call_identical by blast
qed

text \<open>
  C7. The cache invariant holds after every call of the loader: each cached
  object was loaded from its key, allocated before, and distinct paths hold
  distinct objects.
\<close>

theorem load_model_preserves_cache_wf:
  assumes "cache_wf w" and "load_model L p w = (r, w')"
  shows "cache_wf w'"
  using assms by (rule load_model_cache_wf)

theorem load_model_preserves_cache_wf_witness:
  "cache_wf init_world \<and>
   (\<exists>r w'. load_model (stub_lib None None) ''weights/detection/yolov8n.pt'' init_world = (r, w') \<and> cache_wf w')"
proof -
  have wf: "cache_wf init_world" by (simp add: cache_wf_def init_world_def)
  obtain r w' where eq: "load_model (stub_lib None None) ''weights/detection/yolov8n.pt'' init_world = (r, w')"
    by fastforce
  show ?thesis using wf eq load_model_preserves_cache_wf [OF wf eq] by blast
qed

text \<open>
  C8. Over any sequence of script runs, a weights file that loads is read at
  most once (once if the path is ever asked for), while a file that fails to
  load is read again on every run that asks for it: failures are not cached.
\<close>

theorem load_seq_reads:
  assumes "cache w p = None"
  shows "\<exists>new. trace (load_seq L ps w) = trace w @ new \<and>
           count_where ((=) (ModelLoad p)) new =
             (case yolo L p of Inr _ \<Rightarrow> (if p \<in> set ps then 1 else 0) | Inl _ \<Rightarrow> count_list ps p)"
  using assms
proof (induction ps arbitrary: w)
  case Nil
  then show ?case by (simp split: sum.splits)
next
  case (Cons q ps)
  let ?w1 = "snd (load_model L q w)"
  show ?case
  proof (cases "q = p")
    case True
    show ?thesis
    proof (cases "yolo L p")
      case (Inl e)
      with True Cons.prems have "cache ?w1 p = None" by (simp add: load_model_cache_at)
      from Cons.IH [OF this] obtain new where
        "trace (load_seq L ps ?w1) = trace ?w1 @ new"
        "count_where ((=) (ModelLoad p)) new = count_list ps p"
        using Inl by auto
      with True Inl Cons.prems show ?thesis by (simp add: load_model_trace)
    next
      case (Inr wt)
      with True Cons.prems have "cache ?w1 p \<noteq> None" by (simp add: load_model_cache_at)
      from load_seq_trace_cached [OF this] obtain new where
        "trace (load_seq L ps ?w1) = trace ?w1 @ new"
        "count_where ((=) (ModelLoad p)) new = 0" by blast
      with True Inr Cons.prems show ?thesis by (simp add: load_model_trace)
    qed
  next
    case False
    with Cons.prems have "cache ?w1 p = None" by (simp add: load_model_cache_at)
    from Cons.IH [OF this] obtain new where
      "trace (load_seq L ps ?w1) = trace ?w1 @ new"
      "count_where ((=) (ModelLoad p)) new =
         (case yolo L p of Inr _ \<Rightarrow> (if p \<in> set ps then 1 else 0) | Inl _ \<Rightarrow> count_list ps p)"
      by blast
    with False show ?thesis by (auto simp: load_model_trace split: sum.splits)
  qed
qed

theorem load_seq_reads_witness:
  "cache init_world ''a.pt'' = None \<and>
   (\<exists>new. trace (load_seq (stub_lib None None) [''a.pt'', ''b.pt'', ''a.pt''] init_world) = trace init_world @ new \<and>
          count_where ((=) (ModelLoad ''a.pt'')) new = 1)"
proof -
  have c: "cache init_world ''a.pt'' = None" by (simp add: init_world_def)
  show ?thesis
    using c load_seq_reads [OF c, of "stub_lib None None" "[''a.pt'', ''b.pt'', ''a.pt'']"]
    by (simp add: stub_lib_def)
qed

end
