(* ===== verification/Frames.thy ===== *)
theory Frames
  imports World
begin

text \<open>
  The inference step and presentation sink of the streaming sources: the
  helper \<^verbatim>\<open>_display_detected_frames\<close> of \<^verbatim>\<open>src/utils.py\<close>, which resizes a
  frame to 720 x 405, runs the model on it and replaces the content of the
  placeholder with the annotated frame; and the read loop that the video and
  the webcam handlers share: read a frame, display it, and on a failed read
  release the capture and leave the loop. The loop runs while its guard
  holds, which is \<^verbatim>\<open>vid_cap.isOpened()\<close> for the video and \<^verbatim>\<open>not flag\<close> for the
  webcam; it is a \<^theory_text>\<open>partial_function\<close> in the option monad, since on a
  camera it need not end (\<open>None\<close>).
\<close>

text \<open>\<^verbatim>\<open>int(720 * (9 / 16))\<close>: the height of a displayed frame (exact in binary floating point).\<close>

definition display_height :: nat where
  "display_height = nat (floor ((720::rat) * (9 / 16)))"

text \<open>\<^verbatim>\<open>model.predict(image, conf=conf)\<close>: the call is recorded, then the library answers.\<close>

definition predict :: "lib \<Rightarrow> handle \<Rightarrow> img \<Rightarrow> rat \<Rightarrow> (world, result list) eff" where
  "predict L model im conf =
     bindE (emit (Predict (h_obj model) im conf))
       (\<lambda>_. lift (predict_fn L (h_weights model) im conf))"

definition display_detected_frames :: "lib \<Rightarrow> rat \<Rightarrow> handle \<Rightarrow> nat \<Rightarrow> img \<Rightarrow> (world, unit) eff" where
  "display_detected_frames L conf model st_frame frame =
     bindE (lift (resize_fn L frame (720, display_height))) (\<lambda>resized.
     bindE (predict L model resized conf) (\<lambda>res.
     bindE (lift (py_first res)) (\<lambda>res0.
     st_image (Slot st_frame) (FromArray (res_plot res0)) CapVideo BGR)))"

text \<open>
  \<^verbatim>\<open>while guard: success, image = vid_cap.read(); if success: display
  else: vid_cap.release(); break\<close>. An exception of the display leaves the
  loop at once and is passed on.
\<close>

partial_function (option) frame_loop ::
  "(world \<Rightarrow> bool) \<Rightarrow> lib \<Rightarrow> rat \<Rightarrow> handle \<Rightarrow> nat \<Rightarrow> nat \<Rightarrow> world \<Rightarrow> ((exn + unit) \<times> world) option"
where
  "frame_loop guard L conf model st_frame vid_cap w =
     (if guard w then
        (case cap_read vid_cap w of
           (Some frame, w1) \<Rightarrow>
             (case display_detected_frames L conf model st_frame frame w1 of
                (Inl e, w2) \<Rightarrow> Some (Inl e, w2)
              | (Inr _, w2) \<Rightarrow> frame_loop guard L conf model st_frame vid_cap w2)
         | (None, w1) \<Rightarrow> Some (Inr (), cap_release vid_cap w1))
      else Some (Inr (), w))"

subsection \<open>The outcome of one frame\<close>

text \<open>
  What \<open>display_detected_frames\<close> does with one frame, as a value: whether it
  completes or raises, and the events it emits (the inference call, then the
  annotated frame put into the placeholder).
\<close>

definition frame_outcome :: "lib \<Rightarrow> rat \<Rightarrow> handle \<Rightarrow> nat \<Rightarrow> img \<Rightarrow> (exn + unit) \<times> event list" where
  "frame_outcome L conf h s fr =
     (case resize_fn L fr (720, display_height) of
        Inl e \<Rightarrow> (Inl e, [])
      | Inr im \<Rightarrow>
          (case predict_fn L (h_weights h) im conf of
             Inl e \<Rightarrow> (Inl e, [Predict (h_obj h) im conf])
           | Inr [] \<Rightarrow> (Inl IndexError, [Predict (h_obj h) im conf])
           | Inr (r # _) \<Rightarrow>
               (Inr (), [Predict (h_obj h) im conf, StImage (Slot s) (FromArray (res_plot r)) CapVideo BGR])))"

definition frames_events :: "lib \<Rightarrow> rat \<Rightarrow> handle \<Rightarrow> nat \<Rightarrow> img list \<Rightarrow> event list" where
  "frames_events L conf h s frs = concat (map (\<lambda>fr. snd (frame_outcome L conf h s fr)) frs)"

text \<open>A read loop stops after \<open>n\<close> more frames when the read fails there or that frame raises.\<close>

definition loop_stops_at :: "lib \<Rightarrow> rat \<Rightarrow> handle \<Rightarrow> nat \<Rightarrow> capture \<Rightarrow> nat \<Rightarrow> bool" where
  "loop_stops_at L conf h s k n =
     (case cap_feed k (cap_pos k + n) of
        None \<Rightarrow> True
      | Some fr \<Rightarrow> fst (frame_outcome L conf h s fr) \<noteq> Inr ())"

subsection \<open>One frame\<close>

lemma display_height_eq: "display_height = 405"
  by (simp add: display_height_def)

lemma display_detected_frames_eq:
  "display_detected_frames L conf h s fr w =
     (fst (frame_outcome L conf h s fr), w\<lparr>trace := trace w @ snd (frame_outcome L conf h s fr)\<rparr>)"
  by (simp add: display_detected_frames_def frame_outcome_def predict_def st_image_def emit_def
      bindE_def split: sum.splits list.splits)

lemma frame_loop_unfold:
  "frame_loop G L conf h s c w =
     (if G w then
        (case cap_read c w of
           (Some fr, w1) \<Rightarrow>
             (case fst (frame_outcome L conf h s fr) of
                Inl e \<Rightarrow> Some (Inl e, w1\<lparr>trace := trace w1 @ snd (frame_outcome L conf h s fr)\<rparr>)
              | Inr _ \<Rightarrow> frame_loop G L conf h s c (w1\<lparr>trace := trace w1 @ snd (frame_outcome L conf h s fr)\<rparr>))
         | (None, w1) \<Rightarrow> Some (Inr (), cap_release c w1))
      else Some (Inr (), w))"
  by (subst frame_loop.simps) (simp add: display_detected_frames_eq split: prod.splits option.splits sum.splits)

text \<open>What a processed frame emits: one inference call and one placeholder update.\<close>

lemma frame_outcome_Inr_counts:
  assumes "fst (frame_outcome L conf h s fr) = Inr ()"
  shows "count_where is_predict (snd (frame_outcome L conf h s fr)) = 1"
    and "count_where (is_slot_image s) (snd (frame_outcome L conf h s fr)) = 1"
    and "count_where (is_release c) (snd (frame_outcome L conf h s fr)) = 0"
    and "count_where is_error (snd (frame_outcome L conf h s fr)) = 0"
    and "count_where page_element (snd (frame_outcome L conf h s fr)) = 0"
  using assms by (auto simp: frame_outcome_def split: sum.splits list.splits)

lemma frames_events_counts:
  assumes "\<forall>fr \<in> set frs. fst (frame_outcome L conf h s fr) = Inr ()"
  shows "count_where is_predict (frames_events L conf h s frs) = length frs"
    and "count_where (is_slot_image s) (frames_events L conf h s frs) = length frs"
    and "count_where (is_release c) (frames_events L conf h s frs) = 0"
    and "count_where is_error (frames_events L conf h s frs) = 0"
    and "count_where page_element (frames_events L conf h s frs) = 0"
  using assms
  by (induction frs) (simp_all add: frames_events_def frame_outcome_Inr_counts)

text \<open>A frame never releases a capture or shows an error, whatever its outcome.\<close>

lemma frame_outcome_quiet:
  "count_where (is_release c) (snd (frame_outcome L conf h s fr)) = 0"
  "count_where is_error (snd (frame_outcome L conf h s fr)) = 0"
  by (auto simp: frame_outcome_def split: sum.splits list.splits)

lemma frames_events_quiet:
  "count_where (is_release c) (frames_events L conf h s frs) = 0"
  "count_where is_error (frames_events L conf h s frs) = 0"
  by (induction frs) (simp_all add: frames_events_def frame_outcome_quiet)

subsection \<open>The read loop\<close>

text \<open>
  Every frame is displayed, then the read fails: the loop emits the frames'
  events, releases the capture once and completes.
\<close>

lemma frame_loop_all_ok:
  assumes "caps w c = Some k" "cap_opened k"
    and "\<forall>i < length xs. cap_feed k (cap_pos k + i) = Some (xs ! i)"
    and "cap_feed k (cap_pos k + length xs) = None"
    and "\<And>w. cap_isOpened c w \<Longrightarrow> G w"
    and "\<forall>fr \<in> set xs. fst (frame_outcome L conf h s fr) = Inr ()"
  shows "frame_loop G L conf h s c w =
     Some (Inr (), w\<lparr>trace := trace w @ frames_events L conf h s xs @ [CapRelease c],
                     caps := (caps w)(c \<mapsto> k\<lparr>cap_pos := cap_pos k + length xs, cap_opened := False\<rparr>)\<rparr>)"
  using assms(1-4,6)
proof (induction xs arbitrary: w k)
  case Nil
  then have "G w" by (simp add: assms(5) cap_isOpened_Some)
  with Nil show ?case
    by (subst frame_loop_unfold) (simp add: cap_read_end cap_release_def frames_events_def)
next
  case (Cons x xs)
  let ?k = "k\<lparr>cap_pos := Suc (cap_pos k)\<rparr>"
  let ?w1 = "w\<lparr>caps := (caps w)(c \<mapsto> ?k)\<rparr>"
  let ?w2 = "?w1\<lparr>trace := trace ?w1 @ snd (frame_outcome L conf h s x)\<rparr>"
  from Cons.prems have G: "G w" by (simp add: assms(5) cap_isOpened_Some)
  from Cons.prems(3) have rd: "cap_read c w = (Some x, ?w1)"
    using Cons.prems(1,2) by (auto simp: cap_read_next)
  from Cons.prems(5) have ok: "fst (frame_outcome L conf h s x) = Inr ()" by simp
  have IH: "frame_loop G L conf h s c ?w2 =
     Some (Inr (), ?w2\<lparr>trace := trace ?w2 @ frames_events L conf h s xs @ [CapRelease c],
                     caps := (caps ?w2)(c \<mapsto> ?k\<lparr>cap_pos := cap_pos ?k + length xs, cap_opened := False\<rparr>)\<rparr>)"
  proof (rule Cons.IH)
    show "\<forall>i<length xs. cap_feed ?k (cap_pos ?k + i) = Some (xs ! i)"
      using Cons.prems(3) by (auto dest: spec [of _ "Suc _"])
  qed (use Cons.prems in auto)
  show ?case
    using G rd ok IH by (subst frame_loop_unfold) (simp add: frames_events_def)
qed

text \<open>A frame raises: the loop passes the exception on with the capture still open.\<close>

lemma frame_loop_raises:
  assumes "caps w c = Some k" "cap_opened k"
    and "\<forall>i < length (xs @ [bad]). cap_feed k (cap_pos k + i) = Some ((xs @ [bad]) ! i)"
    and "\<And>w. cap_isOpened c w \<Longrightarrow> G w"
    and "\<forall>fr \<in> set xs. fst (frame_outcome L conf h s fr) = Inr ()"
    and "fst (frame_outcome L conf h s bad) = Inl e"
  shows "frame_loop G L conf h s c w =
     Some (Inl e, w\<lparr>trace := trace w @ frames_events L conf h s (xs @ [bad]),
                    caps := (caps w)(c \<mapsto> k\<lparr>cap_pos := Suc (cap_pos k + length xs)\<rparr>)\<rparr>)"
  using assms(1-3,5)
proof (induction xs arbitrary: w k)
  case Nil
  then have "G w" by (simp add: assms(4) cap_isOpened_Some)
  moreover from Nil have "cap_read c w = (Some bad, w\<lparr>caps := (caps w)(c \<mapsto> k\<lparr>cap_pos := Suc (cap_pos k)\<rparr>)\<rparr>)"
    by (auto simp: cap_read_next)
  ultimately show ?case
    using assms(6) by (subst frame_loop_unfold) (simp add: frames_events_def)
next
  case (Cons x xs)
  let ?k = "k\<lparr>cap_pos := Suc (cap_pos k)\<rparr>"
  let ?w1 = "w\<lparr>caps := (caps w)(c \<mapsto> ?k)\<rparr>"
  let ?w2 = "?w1\<lparr>trace := trace ?w1 @ snd (frame_outcome L conf h s x)\<rparr>"
  from Cons.prems have G: "G w" by (simp add: assms(4) cap_isOpened_Some)
  from Cons.prems(3) have rd: "cap_read c w = (Some x, ?w1)"
    using Cons.prems(1,2) by (auto simp: cap_read_next)
  from Cons.prems(4) have ok: "fst (frame_outcome L conf h s x) = Inr ()" by simp
  have IH: "frame_loop G L conf h s c ?w2 =
     Some (Inl e, ?w2\<lparr>trace := trace ?w2 @ frames_events L conf h s (xs @ [bad]),
                    caps := (caps ?w2)(c \<mapsto> ?k\<lparr>cap_pos := Suc (cap_pos ?k + length xs)\<rparr>)\<rparr>)"
  proof (rule Cons.IH)
    show "\<forall>i<length (xs @ [bad]). cap_feed ?k (cap_pos ?k + i) = Some ((xs @ [bad]) ! i)"
      using Cons.prems(3) by (auto dest: spec [of _ "Suc _"])
  qed (use Cons.prems in auto)
  show ?case
    using G rd ok IH by (subst frame_loop_unfold) (simp add: frames_events_def)
qed

text \<open>
  One turn of the loop on a frame that is processed, and a loop that stops at
  once: the two cases of the termination argument.
\<close>

lemma frame_loop_step:
  assumes "G w" "caps w c = Some k" "cap_opened k" "cap_feed k (cap_pos k) = Some fr"
    and "fst (frame_outcome L conf h s fr) = Inr ()"
  shows "frame_loop G L conf h s c w =
     frame_loop G L conf h s c (w\<lparr>caps := (caps w)(c \<mapsto> k\<lparr>cap_pos := Suc (cap_pos k)\<rparr>),
                                   trace := trace w @ snd (frame_outcome L conf h s fr)\<rparr>)"
  using assms by (subst frame_loop_unfold) (simp add: cap_read_next)

lemma frame_loop_immediate:
  assumes "\<not> (\<exists>k fr. G w \<and> caps w c = Some k \<and> cap_opened k \<and> cap_feed k (cap_pos k) = Some fr \<and>
                    fst (frame_outcome L conf h s fr) = Inr ())"
  shows "frame_loop G L conf h s c w \<noteq> None"
  using assms
  by (subst frame_loop_unfold) (auto simp: cap_read_def split: option.splits prod.splits sum.splits)

text \<open>
  Once the read \<open>n\<close> frames ahead fails or that frame raises, the loop
  returns: by induction on \<open>n\<close>, the distance to where it stops.
\<close>

lemma frame_loop_returns:
  assumes "\<forall>k. caps w c = Some k \<longrightarrow> cap_opened k \<longrightarrow> loop_stops_at L conf h s k n"
  shows "frame_loop G L conf h s c w \<noteq> None"
  using assms
proof (induction n arbitrary: w)
  case 0
  then show ?case
    by (intro frame_loop_immediate) (auto simp: loop_stops_at_def)
next
  case (Suc n)
  show ?case
  proof (cases "\<exists>k fr. G w \<and> caps w c = Some k \<and> cap_opened k \<and> cap_feed k (cap_pos k) = Some fr \<and>
                    fst (frame_outcome L conf h s fr) = Inr ()")
    case True
    then obtain k fr where step: "G w" "caps w c = Some k" "cap_opened k"
      "cap_feed k (cap_pos k) = Some fr" "fst (frame_outcome L conf h s fr) = Inr ()"
      by blast
    have "loop_stops_at L conf h s (k\<lparr>cap_pos := Suc (cap_pos k)\<rparr>) n"
      using Suc.prems step(2,3) by (simp add: loop_stops_at_def)
    then have "frame_loop G L conf h s c (w\<lparr>caps := (caps w)(c \<mapsto> k\<lparr>cap_pos := Suc (cap_pos k)\<rparr>),
                                   trace := trace w @ snd (frame_outcome L conf h s fr)\<rparr>) \<noteq> None"
      by (intro Suc.IH) simp
    with frame_loop_step [of G w, OF step] show ?thesis by simp
  next
    case False
    then show ?thesis by (rule frame_loop_immediate)
  qed
qed


text \<open>Conversely, the loop returns only when a read fails or a frame raises.\<close>

lemma frame_loop_Some_cause:
  assumes ret: "frame_loop G L conf h s c w = Some r"
  shows "(\<forall>w. cap_isOpened c w \<longrightarrow> G w) \<longrightarrow>
         (\<forall>k. caps w c = Some k \<longrightarrow> cap_opened k \<longrightarrow> (\<exists>n. loop_stops_at L conf h s k n))"
proof (rule frame_loop.raw_induct [where P = "\<lambda>G L conf h s c w r.
    (\<forall>w. cap_isOpened c w \<longrightarrow> G w) \<longrightarrow>
    (\<forall>k. caps w c = Some k \<longrightarrow> cap_opened k \<longrightarrow> (\<exists>n. loop_stops_at L conf h s k n))", OF _ ret])
  fix f G L conf h s c w r
  assume IH: "\<And>G L conf h s c w r. f G L conf h s c w = Some r \<Longrightarrow>
      (\<forall>w. cap_isOpened c w \<longrightarrow> G w) \<longrightarrow>
      (\<forall>k. caps w c = Some k \<longrightarrow> cap_opened k \<longrightarrow> (\<exists>n. loop_stops_at L conf h s k n))"
    and eq: "(if G w then
        case cap_read c w of
          (Some fr, w1) \<Rightarrow>
            (case display_detected_frames L conf h s fr w1 of
               (Inl e, w2) \<Rightarrow> Some (Inl e, w2)
             | (Inr _, w2) \<Rightarrow> f G L conf h s c w2)
        | (None, w1) \<Rightarrow> Some (Inr (), cap_release c w1)
      else Some (Inr (), w)) = Some r"
  show "(\<forall>w. cap_isOpened c w \<longrightarrow> G w) \<longrightarrow>
        (\<forall>k. caps w c = Some k \<longrightarrow> cap_opened k \<longrightarrow> (\<exists>n. loop_stops_at L conf h s k n))"
  proof (intro impI allI)
    fix k
    assume HG: "\<forall>w. cap_isOpened c w \<longrightarrow> G w" and k: "caps w c = Some k" and op: "cap_opened k"
    then have G: "G w" by (simp add: cap_isOpened_Some)
    show "\<exists>n. loop_stops_at L conf h s k n"
    proof (cases "loop_stops_at L conf h s k 0")
      case True
      then show ?thesis ..
    next
      case False
      then obtain fr where fr: "cap_feed k (cap_pos k) = Some fr"
        and ok: "fst (frame_outcome L conf h s fr) = Inr ()"
        by (auto simp: loop_stops_at_def split: option.splits)
      let ?k = "k\<lparr>cap_pos := Suc (cap_pos k)\<rparr>"
      let ?w2 = "w\<lparr>caps := (caps w)(c \<mapsto> ?k), trace := trace w @ snd (frame_outcome L conf h s fr)\<rparr>"
      from eq G k op fr ok have "f G L conf h s c ?w2 = Some r"
        by (simp add: cap_read_next display_detected_frames_eq split: sum.splits)
      from IH [OF this] HG op obtain n where "loop_stops_at L conf h s ?k n"
        by auto
      then have "loop_stops_at L conf h s k (Suc n)"
        by (simp add: loop_stops_at_def)
      then show ?thesis ..
    qed
  qed
qed

lemma frame_loop_diverges:
  assumes "\<And>w. cap_isOpened c w \<Longrightarrow> G w"
    and "caps w c = Some k" "cap_opened k"
    and "\<forall>n. \<not> loop_stops_at L conf h s k n"
  shows "frame_loop G L conf h s c w = None"
proof (rule ccontr)
  assume "frame_loop G L conf h s c w \<noteq> None"
  then obtain r where "frame_loop G L conf h s c w = Some r" by auto
  from frame_loop_Some_cause [OF this] assms(1-3) obtain n where "loop_stops_at L conf h s k n"
    by auto
  with assms(4) show False by blast
qed

subsection \<open>What the loop may emit\<close>

text \<open>The loop only appends events a handler may emit, and never touches the model cache.\<close>

lemma frame_outcome_handler_events:
  "list_all (handler_event conf) (snd (frame_outcome L conf h s fr))"
  by (auto simp: frame_outcome_def split: sum.splits list.splits)

lemma frame_loop_appends:
  assumes "frame_loop G L conf h s c w = Some r"
  shows "appends (handler_event conf) w (snd r)"
proof (rule frame_loop.raw_induct [where P = "\<lambda>G L conf h s c w r. appends (handler_event conf) w (snd r)", OF _ assms])
  fix f G L conf h s c w r
  assume IH: "\<And>G L conf h s c w r. f G L conf h s c w = Some r \<Longrightarrow> appends (handler_event conf) w (snd r)"
    and eq: "(if G w then
        case cap_read c w of
          (Some fr, w1) \<Rightarrow>
            (case display_detected_frames L conf h s fr w1 of
               (Inl e, w2) \<Rightarrow> Some (Inl e, w2)
             | (Inr _, w2) \<Rightarrow> f G L conf h s c w2)
        | (None, w1) \<Rightarrow> Some (Inr (), cap_release c w1)
      else Some (Inr (), w)) = Some r"
  obtain fr w1 where rd: "cap_read c w = (fr, w1)" by fastforce
  have a1: "appends (handler_event conf) w w1"
    using cap_read_appends [of "handler_event conf" w c] rd by simp
  show "appends (handler_event conf) w (snd r)"
  proof (cases "G w")
    case False
    with eq show ?thesis by auto
  next
    case True
    show ?thesis
    proof (cases fr)
      case None
      with eq True rd have "snd r = cap_release c w1" by auto
      have "appends (handler_event conf) w1 (cap_release c w1)"
        by (rule cap_release_appends) simp
      with a1 \<open>snd r = cap_release c w1\<close> show ?thesis by (simp add: appends_trans)
    next
      case (Some im)
      let ?w2 = "w1\<lparr>trace := trace w1 @ snd (frame_outcome L conf h s im)\<rparr>"
      have a2: "appends (handler_event conf) w ?w2"
        using a1 frame_outcome_handler_events by (blast intro: appends_trans appends_events)
      show ?thesis
      proof (cases "fst (frame_outcome L conf h s im)")
        case (Inl e)
        with eq True rd Some have "snd r = ?w2" by (auto simp: display_detected_frames_eq)
        with a2 show ?thesis by simp
      next
        case (Inr u)
        with eq True rd Some have "f G L conf h s c ?w2 = Some r" by (auto simp: display_detected_frames_eq)
        from IH [OF this] a2 show ?thesis by (blast intro: appends_trans)
      qed
    qed
  qed
qed

end
