(* ===== verification/ImageInfer.thy ===== *)
theory ImageInfer
  imports Frames
begin

text \<open>
  The image source (\<^verbatim>\<open>infer_uploaded_image\<close> in \<^verbatim>\<open>src/utils.py\<close>). The
  uploader accepts the listed image types; an accepted file is opened with
  PIL and shown in the first column. When the start button was pressed, the
  model runs once on the image at its own resolution, the annotated result is
  converted from BGR to RGB (\<^verbatim>\<open>[:, :, ::-1]\<close>) and shown in the second
  column, and the position and size of every box is written into an
  expander. Only the writing of the boxes is inside a \<^verbatim>\<open>try\<close>: an exception of
  \<^verbatim>\<open>Image.open\<close> or of the prediction leaves the handler.
\<close>

definition IMAGE_TYPES :: "string list" where
  "IMAGE_TYPES = [''jpg'', ''jpeg'', ''png'', ''bmp'', ''webp'']"

text \<open>\<^verbatim>\<open>for box in boxes: st.write(f"...{box.xywh}")\<close>, inside the expander.\<close>

primrec write_boxes :: "box list \<Rightarrow> (world, unit) eff" where
  "write_boxes [] = ret ()"
| "write_boxes (box # boxes) =
     bindE (st_write Expander (TxtBox (box_xywh box))) (\<lambda>_. write_boxes boxes)"

definition infer_uploaded_image :: "lib \<Rightarrow> rat \<Rightarrow> handle \<Rightarrow> upload option \<Rightarrow> bool \<Rightarrow> (world, unit) eff" where
  "infer_uploaded_image L conf model upl start =
     (case file_uploader (Some IMAGE_TYPES) upl of
        None \<Rightarrow> ret ()
      | Some source_img \<Rightarrow>
          bindE (lift (pil_open L source_img)) (\<lambda>uploaded_image.
          bindE (st_image Col1 (FromUpload source_img) CapUploaded RGB) (\<lambda>_.
          if \<not> start then ret ()
          else
            bindE (predict L model uploaded_image conf) (\<lambda>res.
            bindE (lift (py_first res)) (\<lambda>res0.
            let boxes = res_boxes res0;
                res_plotted = flip_channels (res_plot res0)
            in bindE (st_image Col2 (FromArray res_plotted) CapResult RGB) (\<lambda>_.
               try_except (write_boxes boxes)
                 (\<lambda>ex. bindE (st_write Col2 TxtNotUploaded) (\<lambda>_. st_write Col2 (TxtExn ex)))))))))"

subsection \<open>Examples\<close>

text \<open>
  An upload with an upper-case extension, two candidate detections, a model
  that keeps the candidates at or above the threshold, and a model whose
  prediction raises.
\<close>

definition image_upload :: upload where
  "image_upload = \<lparr>up_name = ''plane.JPG'', up_data = [1, 2, 3]\<rparr>"

definition candidate_boxes :: "box list" where
  "candidate_boxes =
     [\<lparr>box_xywh = (10, 20, 30, 40), box_cls = 4, box_conf = 9/10\<rparr>,
      \<lparr>box_xywh = (50, 60, 70, 80), box_cls = 4, box_conf = 1/5\<rparr>]"

definition filtering_lib :: lib where
  "filtering_lib = (stub_lib None None)\<lparr>predict_fn := \<lambda>wt im c.
      Inr [\<lparr>res_boxes = filter (\<lambda>b. c \<le> box_conf b) candidate_boxes, res_plot = im\<rparr>]\<rparr>"

definition failing_lib :: lib where
  "failing_lib = (stub_lib None None)\<lparr>predict_fn := \<lambda>wt im c. Inl (LibError ''inference failed'')\<rparr>"

subsection \<open>The handler, branch by branch\<close>

lemma write_boxes_eq:
  "write_boxes bs w = (Inr (), w\<lparr>trace := trace w @ map (\<lambda>b. StWrite Expander (TxtBox (box_xywh b))) bs\<rparr>)"
  by (induction bs arbitrary: w) (simp_all add: st_write_def emit_def)

lemma file_uploader_image:
  "file_uploader (Some IMAGE_TYPES) (Some f) = (if file_ext (up_name f) \<in> set IMAGE_TYPES then Some f else None)"
  by (simp add: file_uploader_def)

lemma infer_uploaded_image_cases:
  "infer_uploaded_image L conf h upl start w =
    (case file_uploader (Some IMAGE_TYPES) upl of
       None \<Rightarrow> (Inr (), w)
     | Some f \<Rightarrow>
         (case pil_open L f of
            Inl e \<Rightarrow> (Inl e, w)
          | Inr im \<Rightarrow>
              (if \<not> start then (Inr (), w\<lparr>trace := trace w @ [StImage Col1 (FromUpload f) CapUploaded RGB]\<rparr>)
               else
                 (case predict_fn L (h_weights h) im conf of
                    Inl e \<Rightarrow> (Inl e, w\<lparr>trace := trace w @ [StImage Col1 (FromUpload f) CapUploaded RGB, Predict (h_obj h) im conf]\<rparr>)
                  | Inr [] \<Rightarrow> (Inl IndexError, w\<lparr>trace := trace w @ [StImage Col1 (FromUpload f) CapUploaded RGB, Predict (h_obj h) im conf]\<rparr>)
                  | Inr (r # _) \<Rightarrow>
                      (Inr (), w\<lparr>trace := trace w @ [StImage Col1 (FromUpload f) CapUploaded RGB, Predict (h_obj h) im conf,
                         StImage Col2 (FromArray (flip_channels (res_plot r))) CapResult RGB] @
                         map (\<lambda>b. StWrite Expander (TxtBox (box_xywh b))) (res_boxes r)\<rparr>)))))"
  by (simp add: infer_uploaded_image_def predict_def st_image_def emit_def write_boxes_eq
      try_except_def bindE_def split: option.splits sum.splits list.splits)

lemma image_upload_accepted: "file_ext (up_name image_upload) \<in> set IMAGE_TYPES"
  by (simp add: image_upload_def IMAGE_TYPES_def file_ext_def lower_char_def char_of_def bit_0)

lemma infer_uploaded_image_appends:
  "appends (handler_event conf) w (snd (infer_uploaded_image L conf h upl start w))"
  by (auto simp: infer_uploaded_image_cases appends_def list_all_iff
      split: option.splits sum.splits list.splits)

subsection \<open>Properties\<close>

text \<open>
  C12. An accepted image, opened and predicted successfully after the start
  button, yields exactly one inference call on the image at its own
  resolution, the uploaded image in the first column, the annotated result
  (converted to RGB) in the second, and one line per detected box in the
  expander, in this order.
\<close>

theorem image_inference_once:
  assumes "file_ext (up_name f) \<in> set IMAGE_TYPES"
    and "pil_open L f = Inr im"
    and "predict_fn L (h_weights h) im conf = Inr (r # rs)"
  shows "infer_uploaded_image L conf h (Some f) True w =
     (Inr (), w\<lparr>trace := trace w @
        [StImage Col1 (FromUpload f) CapUploaded RGB, Predict (h_obj h) im conf,
         StImage Col2 (FromArray (flip_channels (res_plot r))) CapResult RGB] @
        map (\<lambda>b. StWrite Expander (TxtBox (box_xywh b))) (res_boxes r)\<rparr>)"
  using assms
  by (simp add: infer_uploaded_image_def file_uploader_image predict_def st_image_def emit_def
      write_boxes_eq try_except_def)

theorem image_inference_once_witness:
  "file_ext (up_name image_upload) \<in> set IMAGE_TYPES \<and>
   pil_open filtering_lib image_upload = Inr stub_frame \<and>
   predict_fn filtering_lib 0 stub_frame (1/2) =
     Inr [\<lparr>res_boxes = [hd candidate_boxes], res_plot = stub_frame\<rparr>] \<and>
   infer_uploaded_image filtering_lib (1/2) \<lparr>h_obj = 0, h_path = ''m'', h_weights = 0\<rparr> (Some image_upload) True init_world =
     (Inr (), init_world\<lparr>trace := trace init_world @
        [StImage Col1 (FromUpload image_upload) CapUploaded RGB, Predict 0 stub_frame (1/2),
         StImage Col2 (FromArray (flip_channels stub_frame)) CapResult RGB] @
        [StWrite Expander (TxtBox (10, 20, 30, 40))]\<rparr>)"
proof -
  have op: "pil_open filtering_lib image_upload = Inr stub_frame"
    by (simp add: filtering_lib_def stub_lib_def)
  have pr: "predict_fn filtering_lib (h_weights \<lparr>h_obj = 0, h_path = ''m'', h_weights = 0\<rparr>) stub_frame (1/2) =
     Inr (\<lparr>res_boxes = [hd candidate_boxes], res_plot = stub_frame\<rparr> # [])"
    by (simp add: filtering_lib_def candidate_boxes_def)
  show ?thesis
    using image_upload_accepted op pr image_inference_once [OF image_upload_accepted op pr]
    by (simp add: candidate_boxes_def)
qed

text \<open>
  C13. Whatever the upload and the buttons, every box detail the image handler
  writes comes from the prediction it made in this run, and, when the model
  keeps its threshold contract, that box's confidence is at or above the
  slider's threshold.
\<close>

theorem image_boxes_meet_threshold:
  assumes contract: "predict_contract L"
    and run: "infer_uploaded_image L conf h upl start w = (res, w')"
  shows "\<exists>new. trace w' = trace w @ new \<and>
           (\<forall>xy. StWrite Expander (TxtBox xy) \<in> set new \<longrightarrow>
              (\<exists>im rs b. Predict (h_obj h) im conf \<in> set new \<and> predict_fn L (h_weights h) im conf = Inr rs \<and>
                         b \<in> set (res_boxes (hd rs)) \<and> box_xywh b = xy \<and> conf \<le> box_conf b))"
proof (cases "\<exists>f im r rs. file_uploader (Some IMAGE_TYPES) upl = Some f \<and> pil_open L f = Inr im \<and> start \<and>
                        predict_fn L (h_weights h) im conf = Inr (r # rs)")
  case True
  then obtain f im r rs where up: "file_uploader (Some IMAGE_TYPES) upl = Some f"
    and op: "pil_open L f = Inr im" and st: start
    and pr: "predict_fn L (h_weights h) im conf = Inr (r # rs)" by blast
  from contract pr have above: "\<forall>b \<in> set (res_boxes r). conf \<le> box_conf b"
    by (simp add: predict_contract_def)
  let ?new = "[StImage Col1 (FromUpload f) CapUploaded RGB, Predict (h_obj h) im conf,
               StImage Col2 (FromArray (flip_channels (res_plot r))) CapResult RGB] @
              map (\<lambda>b. StWrite Expander (TxtBox (box_xywh b))) (res_boxes r)"
  from run up op st pr have w': "trace w' = trace w @ ?new"
    by (auto simp: infer_uploaded_image_cases)
  have "\<exists>im' rs' b. Predict (h_obj h) im' conf \<in> set ?new \<and> predict_fn L (h_weights h) im' conf = Inr rs' \<and>
          b \<in> set (res_boxes (hd rs')) \<and> box_xywh b = xy \<and> conf \<le> box_conf b"
    if "StWrite Expander (TxtBox xy) \<in> set ?new" for xy
  proof -
    from that obtain b where b: "b \<in> set (res_boxes r)" "xy = box_xywh b" by auto
    with pr above show ?thesis
      by (intro exI [of _ im] exI [of _ "r # rs"] exI [of _ b]) simp
  qed
  with w' show ?thesis by blast
next
  case False
  with run have "\<exists>new. trace w' = trace w @ new \<and> (\<forall>xy. StWrite Expander (TxtBox xy) \<notin> set new)"
    by (auto simp: infer_uploaded_image_cases split: option.splits sum.splits list.splits if_splits)
  then show ?thesis by blast
qed

theorem image_boxes_meet_threshold_witness:
  "predict_contract filtering_lib \<and>
   (\<exists>res w'. infer_uploaded_image filtering_lib (1/2) \<lparr>h_obj = 0, h_path = ''m'', h_weights = 0\<rparr> (Some image_upload) True init_world = (res, w') \<and>
     (\<exists>new. trace w' = trace init_world @ new \<and>
           (\<forall>xy. StWrite Expander (TxtBox xy) \<in> set new \<longrightarrow>
              (\<exists>im rs b. Predict 0 im (1/2) \<in> set new \<and> predict_fn filtering_lib 0 im (1/2) = Inr rs \<and>
                         b \<in> set (res_boxes (hd rs)) \<and> box_xywh b = xy \<and> 1/2 \<le> box_conf b))))"
proof -
  have c: "predict_contract filtering_lib"
    by (auto simp: predict_contract_def filtering_lib_def)
  obtain res w' where run: "infer_uploaded_image filtering_lib (1/2) \<lparr>h_obj = 0, h_path = ''m'', h_weights = 0\<rparr> (Some image_upload) True init_world = (res, w')"
    by fastforce
  from image_boxes_meet_threshold [OF c run] c run show ?thesis by auto
qed

text \<open>
  C14. An exception of the prediction is not caught in the image handler: the
  handler ends with it after the uploaded image and the inference call, and
  shows no result.
\<close>

theorem image_prediction_error_uncaught:
  assumes "file_ext (up_name f) \<in> set IMAGE_TYPES"
    and "pil_open L f = Inr im"
    and "predict_fn L (h_weights h) im conf = Inl e"
  shows "infer_uploaded_image L conf h (Some f) True w =
     (Inl e, w\<lparr>trace := trace w @ [StImage Col1 (FromUpload f) CapUploaded RGB, Predict (h_obj h) im conf]\<rparr>)"
  using assms
  by (simp add: infer_uploaded_image_def file_uploader_image predict_def st_image_def emit_def)

theorem image_prediction_error_uncaught_witness:
  "pil_open failing_lib image_upload = Inr stub_frame \<and>
   infer_uploaded_image failing_lib (1/2) \<lparr>h_obj = 0, h_path = ''m'', h_weights = 0\<rparr> (Some image_upload) True init_world =
     (Inl (LibError ''inference failed''),
      init_world\<lparr>trace := trace init_world @ [StImage Col1 (FromUpload image_upload) CapUploaded RGB, Predict 0 stub_frame (1/2)]\<rparr>)"
proof -
  have op: "pil_open failing_lib image_upload = Inr stub_frame"
    by (simp add: failing_lib_def stub_lib_def)
  have pr: "predict_fn failing_lib (h_weights \<lparr>h_obj = 0, h_path = ''m'', h_weights = 0\<rparr>) stub_frame (1/2) = Inl (LibError ''inference failed'')"
    by (simp add: failing_lib_def)
  show ?thesis
    using op image_prediction_error_uncaught [OF image_upload_accepted op pr] by simp
qed

end
