(* ===== verification/VideoInfer.thy ===== *)
theory VideoInfer
  imports Frames
begin

text \<open>
  The video source (\<^verbatim>\<open>infer_uploaded_video\<close> in \<^verbatim>\<open>src/utils.py\<close>). The
  uploaded file is shown; when the start button was pressed, its bytes are
  written to a temporary file, a capture object decodes that file, a
  placeholder is created, and the read loop runs while the capture is open.
  Everything after the button is inside one \<^verbatim>\<open>try\<close>, whose handler reports
  the exception with \<^verbatim>\<open>st.error\<close>. The decoder reads the temporary file
  through the file system, so it sees \<open>tmp_visible\<close> of the written bytes.
\<close>

text \<open>The body of the function, lines 98--121.\<close>

definition infer_uploaded_video_body :: "lib \<Rightarrow> rat \<Rightarrow> handle \<Rightarrow> upload option \<Rightarrow> bool \<Rightarrow> (world, unit) peff" where
  "infer_uploaded_video_body L conf model upl start =
     (case file_uploader None upl of
        None \<Rightarrow> total (ret ())
      | Some source_video \<Rightarrow>
          bindP (st_video source_video) (\<lambda>_.
          if \<not> start then total (ret ())
          else
            try_exceptP
              (bindP (VideoCapture (map_option list_feed (decode L (tmp_visible L (up_data source_video)))))
                 (\<lambda>vid_cap.
               bindP st_empty (\<lambda>st_frame.
               frame_loop (cap_isOpened vid_cap) L conf model st_frame vid_cap)))
              (\<lambda>e. st_error Main (MsgVideoError e))))"

text \<open>
  The call: when it returns, the local \<^verbatim>\<open>vid_cap\<close> is freed and the capture's
  destructor releases its source if the body left it open.
\<close>

definition infer_uploaded_video :: "lib \<Rightarrow> rat \<Rightarrow> handle \<Rightarrow> upload option \<Rightarrow> bool \<Rightarrow> (world, unit) peff" where
  "infer_uploaded_video L conf model upl start = local_scope (infer_uploaded_video_body L conf model upl start)"

text \<open>An uploaded video for the examples.\<close>

definition video_upload :: upload where
  "video_upload = \<lparr>up_name = ''clip.mp4'', up_data = [0, 1, 2]\<rparr>"

text \<open>A frame the resize step rejects.\<close>

definition bad_frame :: img where
  "bad_frame = \<lparr>img_w = 0, img_h = 0, img_px = []\<rparr>"

subsection \<open>What the handler may emit\<close>

text \<open>Detect pressed on an upload: the capture is opened, the placeholder created, the loop run.\<close>

lemma infer_uploaded_video_started:
  assumes "file_uploader None upl = Some v"
  shows "infer_uploaded_video_body L conf h upl True w =
      try_exceptP (\<lambda>_. frame_loop (cap_isOpened (next_cap w)) L conf h (next_slot w) (next_cap w)
          (snd (st_empty (snd (VideoCapture (map_option list_feed (decode L (tmp_visible L (up_data v))))
             (w\<lparr>trace := trace w @ [StVideo v]\<rparr>))))))
        (\<lambda>e. st_error Main (MsgVideoError e)) w"
  using assms by (simp add: infer_uploaded_video_body_def st_video_def emit_def bindP_def try_exceptP_def
      VideoCapture_def st_empty_def Let_def)

lemma infer_uploaded_video_body_appends:
  assumes "infer_uploaded_video_body L conf h upl start w = Some r"
  shows "appends (handler_event conf) w (snd r)"
proof (cases "file_uploader None upl = None \<or> \<not> start")
  case True
  with assms show ?thesis
    by (auto simp: infer_uploaded_video_body_def st_video_def emit_def appends_def split: option.splits)
next
  case False
  then obtain v where up: "file_uploader None upl = Some v" and st: start by auto
  let ?src = "map_option list_feed (decode L (tmp_visible L (up_data v)))"
  let ?w1 = "snd (st_empty (snd (VideoCapture ?src (w\<lparr>trace := trace w @ [StVideo v]\<rparr>))))"
  have a1: "appends (handler_event conf) w ?w1"
    by (auto simp: appends_def st_empty_def VideoCapture_def Let_def)
  note run = infer_uploaded_video_started [OF up, of L conf h w]
  obtain a b where loop: "frame_loop (cap_isOpened (next_cap w)) L conf h (next_slot w) (next_cap w) ?w1 = Some (a, b)"
    using assms run st by (cases "frame_loop (cap_isOpened (next_cap w)) L conf h (next_slot w) (next_cap w) ?w1")
      (auto simp: try_exceptP_def)
  have r: "r = (case a of Inl e \<Rightarrow> st_error Main (MsgVideoError e) b | Inr a \<Rightarrow> (Inr a, b))"
    using assms run loop st by (simp add: try_exceptP_def)
  have "appends (handler_event conf) w b"
    using a1 frame_loop_appends [OF loop] by (simp add: appends_trans)
  then show ?thesis
    using r by (cases a) (auto simp: st_error_def emit_def intro!: appends_snoc)
qed

lemma infer_uploaded_video_appends:
  "infer_uploaded_video L conf h upl start w = Some r \<Longrightarrow> appends (handler_event conf) w (snd r)"
  unfolding infer_uploaded_video_def
  by (erule local_scope_appends) (simp_all add: infer_uploaded_video_body_appends)

text \<open>
  The video handler always returns: the decoder yields finitely many frames,
  so the read loop stops at the latest when it has read them all.
\<close>

lemma infer_uploaded_video_body_returns: "infer_uploaded_video_body L conf h upl start w \<noteq> None"
proof (cases "file_uploader None upl = None \<or> \<not> start")
  case True
  then show ?thesis
    by (auto simp: infer_uploaded_video_body_def st_video_def emit_def split: option.splits)
next
  case False
  then obtain v where up: "file_uploader None upl = Some v" and st: start by auto
  let ?d = "decode L (tmp_visible L (up_data v))"
  let ?w1 = "snd (st_empty (snd (VideoCapture (map_option list_feed ?d) (w\<lparr>trace := trace w @ [StVideo v]\<rparr>))))"
  let ?n = "case ?d of Some frs \<Rightarrow> length frs | None \<Rightarrow> 0"
  have "\<forall>k. caps ?w1 (next_cap w) = Some k \<longrightarrow> cap_opened k \<longrightarrow> loop_stops_at L conf h (next_slot w) k ?n"
    by (cases ?d) (simp_all add: VideoCapture_def st_empty_def Let_def loop_stops_at_def list_feed_def)
  then have ret: "frame_loop (cap_isOpened (next_cap w)) L conf h (next_slot w) (next_cap w) ?w1 \<noteq> None"
    by (rule frame_loop_returns)
  have "infer_uploaded_video_body L conf h upl True w \<noteq> None"
    unfolding infer_uploaded_video_started [OF up] try_exceptP_returns by (rule ret)
  with st show ?thesis by simp
qed

lemma infer_uploaded_video_returns: "infer_uploaded_video L conf h upl start w \<noteq> None"
  by (simp only: infer_uploaded_video_def local_scope_returns infer_uploaded_video_body_returns not_False_eq_True)

subsection \<open>A video played to its end\<close>

lemma infer_uploaded_video_body_frames:
  assumes "decode L (tmp_visible L (up_data v)) = Some frs"
    and "\<forall>fr \<in> set frs. fst (frame_outcome L conf h (next_slot w) fr) = Inr ()"
  shows "infer_uploaded_video_body L conf h (Some v) True w =
     Some (Inr (), w\<lparr>trace := trace w @ [StVideo v, CapOpen (next_cap w), StEmpty (next_slot w)] @
                        frames_events L conf h (next_slot w) frs @ [CapRelease (next_cap w)],
                   caps := (caps w)(next_cap w \<mapsto> \<lparr>cap_opened = False, cap_pos = length frs, cap_feed = list_feed frs\<rparr>),
                   next_cap := Suc (next_cap w), next_slot := Suc (next_slot w)\<rparr>)"
proof -
  let ?k = "\<lparr>cap_opened = True, cap_pos = 0, cap_feed = list_feed frs\<rparr>"
  let ?w1 = "w\<lparr>caps := (caps w)(next_cap w \<mapsto> ?k), next_cap := Suc (next_cap w),
                trace := trace w @ [StVideo v, CapOpen (next_cap w), StEmpty (next_slot w)],
                next_slot := Suc (next_slot w)\<rparr>"
  have loop: "frame_loop (cap_isOpened (next_cap w)) L conf h (next_slot w) (next_cap w) ?w1 =
     Some (Inr (), ?w1\<lparr>trace := trace ?w1 @ frames_events L conf h (next_slot w) frs @ [CapRelease (next_cap w)],
                     caps := (caps ?w1)(next_cap w \<mapsto> ?k\<lparr>cap_pos := cap_pos ?k + length frs, cap_opened := False\<rparr>)\<rparr>)"
    by (rule frame_loop_all_ok) (use assms(2) in \<open>simp_all add: list_feed_def\<close>)
  show ?thesis
    using assms(1) loop
    by (simp add: infer_uploaded_video_body_def file_uploader_def st_video_def emit_def
        VideoCapture_def st_empty_def Let_def try_exceptP_def bindP_def)
qed

text \<open>The loop released the capture, so its destructor has nothing left to do.\<close>

lemma infer_uploaded_video_frames:
  assumes "decode L (tmp_visible L (up_data v)) = Some frs"
    and "\<forall>fr \<in> set frs. fst (frame_outcome L conf h (next_slot w) fr) = Inr ()"
  shows "infer_uploaded_video L conf h (Some v) True w =
     Some (Inr (), w\<lparr>trace := trace w @ [StVideo v, CapOpen (next_cap w), StEmpty (next_slot w)] @
                        frames_events L conf h (next_slot w) frs @ [CapRelease (next_cap w)],
                   caps := (caps w)(next_cap w \<mapsto> \<lparr>cap_opened = False, cap_pos = length frs, cap_feed = list_feed frs\<rparr>),
                   next_cap := Suc (next_cap w), next_slot := Suc (next_slot w)\<rparr>)"
  using local_scope_Some [of "infer_uploaded_video_body L conf h (Some v) True" w,
      OF infer_uploaded_video_body_frames [OF assms]]
  by (simp add: infer_uploaded_video_def cap_free_def)

text \<open>
  C1. A video from which the decoder reads N frames, each processed without an
  exception, is run to its end: exactly N inference calls and N updates of
  the one placeholder, then exactly one release of the capture, no error on
  the page, and the capture is closed afterwards (the EXHAUSTED end of the
  source).
\<close>

theorem video_exhausts_frames:
  assumes "decode L (tmp_visible L (up_data v)) = Some frs"
    and "\<forall>fr \<in> set frs. fst (frame_outcome L conf h (next_slot w) fr) = Inr ()"
  shows "\<exists>w' new. infer_uploaded_video L conf h (Some v) True w = Some (Inr (), w') \<and>
           trace w' = trace w @ new \<and>
           count_where is_predict new = length frs \<and>
           count_where (is_slot_image (next_slot w)) new = length frs \<and>
           count_where (is_release (next_cap w)) new = 1 \<and>
           count_where is_error new = 0 \<and>
           \<not> cap_isOpened (next_cap w) w'"
  using infer_uploaded_video_frames [OF assms] frames_events_counts [OF assms(2)]
  by (simp add: cap_isOpened_def)

text \<open>The spec's scenario: ten frames, threshold 0.5, a stub model that finds nothing.\<close>

theorem video_exhausts_frames_witness:
  "decode (stub_lib (Some (replicate 10 stub_frame)) None) (tmp_visible (stub_lib (Some (replicate 10 stub_frame)) None) (up_data video_upload)) = Some (replicate 10 stub_frame) \<and>
   list_all (\<lambda>fr. fst (frame_outcome (stub_lib (Some (replicate 10 stub_frame)) None) (1/2) \<lparr>h_obj = 0, h_path = ''m'', h_weights = 0\<rparr> (next_slot init_world) fr) = Inr ()) (replicate 10 stub_frame) \<and>
   (\<exists>w' new. infer_uploaded_video (stub_lib (Some (replicate 10 stub_frame)) None) (1/2) \<lparr>h_obj = 0, h_path = ''m'', h_weights = 0\<rparr> (Some video_upload) True init_world = Some (Inr (), w') \<and>
           trace w' = trace init_world @ new \<and>
           count_where is_predict new = 10 \<and>
           count_where (is_slot_image (next_slot init_world)) new = 10 \<and>
           count_where (is_release (next_cap init_world)) new = 1 \<and>
           count_where is_error new = 0 \<and>
           \<not> cap_isOpened (next_cap init_world) w')"
proof -
  let ?L = "stub_lib (Some (replicate 10 stub_frame)) None"
  let ?h = "\<lparr>h_obj = 0, h_path = ''m'', h_weights = 0\<rparr>"
  have d: "decode ?L (tmp_visible ?L (up_data video_upload)) = Some (replicate 10 stub_frame)"
    by (simp add: stub_lib_def)
  have ok: "\<forall>fr \<in> set (replicate 10 stub_frame). fst (frame_outcome ?L (1/2) ?h (next_slot init_world) fr) = Inr ()"
    by (simp add: stub_lib_def frame_outcome_def)
  show ?thesis
    using d ok video_exhausts_frames [OF d ok] by (simp add: list_all_iff)
qed

text \<open>
  C11. However many frames the video has, the page gains exactly two elements
  (the video player and the placeholder), and the placeholder ends showing
  the annotated last frame: frames replace each other in one slot.
\<close>

theorem video_single_display_slot:
  assumes "decode L (tmp_visible L (up_data v)) = Some frs"
    and "\<forall>fr \<in> set frs. fst (frame_outcome L conf h (next_slot w) fr) = Inr ()"
    and "frs \<noteq> []"
    and "resize_fn L (last frs) (720, display_height) = Inr im"
    and "predict_fn L (h_weights h) im conf = Inr (r # rs)"
  shows "\<exists>w'. infer_uploaded_video L conf h (Some v) True w = Some (Inr (), w') \<and>
           page_size (trace w') = page_size (trace w) + 2 \<and>
           slot_shows (trace w') (next_slot w) =
             Some (StImage (Slot (next_slot w)) (FromArray (res_plot r)) CapVideo BGR)"
proof -
  let ?s = "next_slot w"
  have split: "frames_events L conf h ?s frs =
      frames_events L conf h ?s (butlast frs) @ snd (frame_outcome L conf h ?s (last frs))"
  proof -
    from assms(3) have "frs = butlast frs @ [last frs]" by simp
    then have "frames_events L conf h ?s frs = frames_events L conf h ?s (butlast frs @ [last frs])"
      by (rule arg_cong)
    then show ?thesis by (simp add: frames_events_def)
  qed
  have lastev: "snd (frame_outcome L conf h ?s (last frs)) =
      [Predict (h_obj h) im conf, StImage (Slot ?s) (FromArray (res_plot r)) CapVideo BGR]"
    using assms(4,5) by (simp add: frame_outcome_def)
  show ?thesis
    using infer_uploaded_video_frames [OF assms(1,2)] frames_events_counts(5) [OF assms(2)]
    by (simp add: page_size_def split lastev slot_shows_append)
qed

theorem video_single_display_slot_witness:
  "decode (stub_lib (Some (replicate 3 stub_frame)) None) (tmp_visible (stub_lib (Some (replicate 3 stub_frame)) None) (up_data video_upload)) = Some (replicate 3 stub_frame) \<and>
   (\<exists>w'. infer_uploaded_video (stub_lib (Some (replicate 3 stub_frame)) None) (1/2) \<lparr>h_obj = 0, h_path = ''m'', h_weights = 0\<rparr> (Some video_upload) True init_world = Some (Inr (), w') \<and>
         page_size (trace w') = page_size (trace init_world) + 2 \<and>
         slot_shows (trace w') (next_slot init_world) =
           Some (StImage (Slot (next_slot init_world)) (FromArray (stub_frame\<lparr>img_w := 720, img_h := display_height\<rparr>)) CapVideo BGR))"
proof -
  let ?L = "stub_lib (Some (replicate 3 stub_frame)) None"
  let ?h = "\<lparr>h_obj = 0, h_path = ''m'', h_weights = 0\<rparr>"
  let ?im = "stub_frame\<lparr>img_w := 720, img_h := display_height\<rparr>"
  have d: "decode ?L (tmp_visible ?L (up_data video_upload)) = Some (replicate 3 stub_frame)"
    by (simp add: stub_lib_def)
  have ok: "\<forall>fr \<in> set (replicate 3 stub_frame). fst (frame_outcome ?L (1/2) ?h (next_slot init_world) fr) = Inr ()"
    by (simp add: stub_lib_def frame_outcome_def)
  have ne: "replicate 3 stub_frame \<noteq> []" by simp
  have rs: "resize_fn ?L (last (replicate 3 stub_frame)) (720, display_height) = Inr ?im"
    by (simp add: stub_lib_def)
  have pr: "predict_fn ?L (h_weights ?h) ?im (1/2) = Inr (\<lparr>res_boxes = [], res_plot = ?im\<rparr> # [])"
    by (simp add: stub_lib_def)
  show ?thesis using d video_single_display_slot [OF d ok ne rs pr] by simp
qed

subsection \<open>Exceptions and undecodable files\<close>

text \<open>
  C9. When a frame raises, the loop stops after the frames before it, the
  \<^verbatim>\<open>except\<close> block shows the exception, and \<^verbatim>\<open>release()\<close> is never called:
  the decoder is released only by the capture's destructor, when the handler
  returns and its local \<^verbatim>\<open>vid_cap\<close> is freed, after the error message.
\<close>

theorem video_frame_error_released_on_return:
  assumes "decode L (tmp_visible L (up_data v)) = Some (pre @ bad # rest)"
    and "\<forall>fr \<in> set pre. fst (frame_outcome L conf h (next_slot w) fr) = Inr ()"
    and "fst (frame_outcome L conf h (next_slot w) bad) = Inl e"
  shows "\<exists>w'. infer_uploaded_video L conf h (Some v) True w = Some (Inr (), w') \<and>
           trace w' = trace w @ [StVideo v, CapOpen (next_cap w), StEmpty (next_slot w)] @
             frames_events L conf h (next_slot w) (pre @ [bad]) @
             [StError Main (MsgVideoError e), CapFree (next_cap w)] \<and>
           \<not> cap_isOpened (next_cap w) w'"
proof -
  let ?k = "\<lparr>cap_opened = True, cap_pos = 0, cap_feed = list_feed (pre @ bad # rest)\<rparr>"
  let ?w1 = "w\<lparr>caps := (caps w)(next_cap w \<mapsto> ?k), next_cap := Suc (next_cap w),
                trace := trace w @ [StVideo v, CapOpen (next_cap w), StEmpty (next_slot w)],
                next_slot := Suc (next_slot w)\<rparr>"
  have loop: "frame_loop (cap_isOpened (next_cap w)) L conf h (next_slot w) (next_cap w) ?w1 =
     Some (Inl e, ?w1\<lparr>trace := trace ?w1 @ frames_events L conf h (next_slot w) (pre @ [bad]),
                    caps := (caps ?w1)(next_cap w \<mapsto> ?k\<lparr>cap_pos := Suc (cap_pos ?k + length pre)\<rparr>)\<rparr>)"
    by (rule frame_loop_raises) (use assms(2,3) list_feed_prefix_at in simp_all)
  show ?thesis
    using assms(1) loop
    by (simp add: infer_uploaded_video_def local_scope_def infer_uploaded_video_body_def file_uploader_def
        st_video_def emit_def st_error_def VideoCapture_def st_empty_def Let_def try_exceptP_def bindP_def
        cap_free_def cap_isOpened_def)
qed

theorem video_frame_error_released_on_return_witness:
  "decode ((stub_lib (Some [stub_frame, bad_frame, stub_frame]) None)\<lparr>resize_fn := \<lambda>im wh. if img_w im = 0 then Inl (LibError ''empty frame'') else Inr im\<rparr>)
     (tmp_visible ((stub_lib (Some [stub_frame, bad_frame, stub_frame]) None)\<lparr>resize_fn := \<lambda>im wh. if img_w im = 0 then Inl (LibError ''empty frame'') else Inr im\<rparr>) (up_data video_upload))
     = Some ([stub_frame] @ bad_frame # [stub_frame]) \<and>
   (\<exists>w'. infer_uploaded_video ((stub_lib (Some [stub_frame, bad_frame, stub_frame]) None)\<lparr>resize_fn := \<lambda>im wh. if img_w im = 0 then Inl (LibError ''empty frame'') else Inr im\<rparr>)
        (1/2) \<lparr>h_obj = 0, h_path = ''m'', h_weights = 0\<rparr> (Some video_upload) True init_world = Some (Inr (), w') \<and>
      trace w' = trace init_world @ [StVideo video_upload, CapOpen (next_cap init_world), StEmpty (next_slot init_world)] @
        frames_events ((stub_lib (Some [stub_frame, bad_frame, stub_frame]) None)\<lparr>resize_fn := \<lambda>im wh. if img_w im = 0 then Inl (LibError ''empty frame'') else Inr im\<rparr>)
          (1/2) \<lparr>h_obj = 0, h_path = ''m'', h_weights = 0\<rparr> (next_slot init_world) ([stub_frame] @ [bad_frame]) @
        [StError Main (MsgVideoError (LibError ''empty frame'')), CapFree (next_cap init_world)] \<and>
      \<not> cap_isOpened (next_cap init_world) w')"
proof -
  let ?L = "(stub_lib (Some [stub_frame, bad_frame, stub_frame]) None)\<lparr>resize_fn := \<lambda>im wh. if img_w im = 0 then Inl (LibError ''empty frame'') else Inr im\<rparr>"
  let ?h = "\<lparr>h_obj = 0, h_path = ''m'', h_weights = 0\<rparr>"
  have d: "decode ?L (tmp_visible ?L (up_data video_upload)) = Some ([stub_frame] @ bad_frame # [stub_frame])"
    by (simp add: stub_lib_def)
  have pre: "\<forall>fr \<in> set [stub_frame]. fst (frame_outcome ?L (1/2) ?h (next_slot init_world) fr) = Inr ()"
    by (simp add: stub_lib_def frame_outcome_def stub_frame_def)
  have bad: "fst (frame_outcome ?L (1/2) ?h (next_slot init_world) bad_frame) = Inl (LibError ''empty frame'')"
    by (simp add: frame_outcome_def bad_frame_def)
  show ?thesis using d video_frame_error_released_on_return [OF d pre bad] by blast
qed

text \<open>
  C10. A file the decoder cannot open leaves the capture closed from the start;
  the loop does not run, and the handler emits only the video player and the
  placeholder: no inference call and no error message.
\<close>

theorem video_undecodable_unreported:
  assumes "decode L (tmp_visible L (up_data v)) = None"
  shows "\<exists>w'. infer_uploaded_video L conf h (Some v) True w = Some (Inr (), w') \<and>
           trace w' = trace w @ [StVideo v, StEmpty (next_slot w)]"
proof -
  have "\<not> cap_isOpened c w0 \<Longrightarrow> frame_loop (cap_isOpened c) L conf h s c w0 = Some (Inr (), w0)" for s c w0
    by (subst frame_loop_unfold) simp
  then show ?thesis
    using assms
    by (simp add: infer_uploaded_video_def local_scope_def infer_uploaded_video_body_def file_uploader_def
        st_video_def emit_def VideoCapture_def st_empty_def Let_def try_exceptP_def bindP_def
        cap_isOpened_def cap_free_def)
qed

theorem video_undecodable_unreported_witness:
  "decode (stub_lib None None) (tmp_visible (stub_lib None None) (up_data video_upload)) = None \<and>
   (\<exists>w'. infer_uploaded_video (stub_lib None None) (1/2) \<lparr>h_obj = 0, h_path = ''m'', h_weights = 0\<rparr> (Some video_upload) True init_world = Some (Inr (), w') \<and>
         trace w' = trace init_world @ [StVideo video_upload, StEmpty (next_slot init_world)])"
proof -
  have d: "decode (stub_lib None None) (tmp_visible (stub_lib None None) (up_data video_upload)) = None"
    by (simp add: stub_lib_def)
  show ?thesis using d video_undecodable_unreported [OF d] by blast
qed

end
