(* ===== verification/Webcam.thy ===== *)
theory Webcam
  imports Frames
begin

text \<open>
  The camera source (\<^verbatim>\<open>infer_uploaded_webcam\<close> in \<^verbatim>\<open>src/utils.py\<close>). The
  stop button's value is read once, into \<^verbatim>\<open>flag\<close>; device 0 is opened, a
  placeholder is created, and the read loop runs while \<^verbatim>\<open>not flag\<close>. Nothing
  in the loop assigns \<^verbatim>\<open>flag\<close>, so within a run the loop ends only by a failed
  read or an exception. The whole body is inside one \<^verbatim>\<open>try\<close>. The
  capture \<^verbatim>\<open>vid_cap\<close> is a local of the function: when the function
  returns, CPython frees it and its destructor closes the device if the body
  left it open.
\<close>

text \<open>The body of the function, lines 130--142.\<close>

definition infer_uploaded_webcam_body :: "lib \<Rightarrow> rat \<Rightarrow> handle \<Rightarrow> bool \<Rightarrow> (world, unit) peff" where
  "infer_uploaded_webcam_body L conf model stop_pressed =
     try_exceptP
       (let flag = stop_pressed in
        bindP (VideoCapture (camera L)) (\<lambda>vid_cap.
        bindP st_empty (\<lambda>st_frame.
        frame_loop (\<lambda>_. \<not> flag) L conf model st_frame vid_cap)))
       (\<lambda>e. st_error Main (MsgVideoError e))"

text \<open>The call: the body, then the freeing of its local capture on return.\<close>

definition infer_uploaded_webcam :: "lib \<Rightarrow> rat \<Rightarrow> handle \<Rightarrow> bool \<Rightarrow> (world, unit) peff" where
  "infer_uploaded_webcam L conf model stop_pressed = local_scope (infer_uploaded_webcam_body L conf model stop_pressed)"

text \<open>The capture object \<^verbatim>\<open>cv2.VideoCapture(0)\<close> creates: open when device 0 is present.\<close>

definition cam_capture :: "lib \<Rightarrow> capture" where
  "cam_capture L = \<lparr>cap_opened = (camera L \<noteq> None), cap_pos = 0,
                    cap_feed = (case camera L of None \<Rightarrow> (\<lambda>_. None) | Some f \<Rightarrow> f)\<rparr>"

subsection \<open>The handler up to its loop\<close>

lemma infer_uploaded_webcam_body_eq:
  "infer_uploaded_webcam_body L conf h stop w =
     try_exceptP (\<lambda>w0. frame_loop (\<lambda>_. \<not> stop) L conf h (next_slot w) (next_cap w) w0)
       (\<lambda>e. st_error Main (MsgVideoError e))
       (w\<lparr>caps := (caps w)(next_cap w \<mapsto> cam_capture L), next_cap := Suc (next_cap w),
          trace := trace w @ (if camera L \<noteq> None then [CapOpen (next_cap w)] else []) @ [StEmpty (next_slot w)],
          next_slot := Suc (next_slot w)\<rparr>)"
  by (simp add: infer_uploaded_webcam_body_def VideoCapture_def st_empty_def cam_capture_def bindP_def
      try_exceptP_def Let_def)

lemma infer_uploaded_webcam_body_appends:
  assumes "infer_uploaded_webcam_body L conf h stop w = Some r"
  shows "appends (handler_event conf) w (snd r)"
proof -
  let ?w1 = "w\<lparr>caps := (caps w)(next_cap w \<mapsto> cam_capture L), next_cap := Suc (next_cap w),
          trace := trace w @ (if camera L \<noteq> None then [CapOpen (next_cap w)] else []) @ [StEmpty (next_slot w)],
          next_slot := Suc (next_slot w)\<rparr>"
  have a1: "appends (handler_event conf) w ?w1"
    by (auto simp: appends_def)
  have run: "infer_uploaded_webcam_body L conf h stop w =
      map_option (\<lambda>(r, s'). case r of Inl e \<Rightarrow> st_error Main (MsgVideoError e) s' | Inr a \<Rightarrow> (Inr a, s'))
        (frame_loop (\<lambda>_. \<not> stop) L conf h (next_slot w) (next_cap w) ?w1)"
    by (simp only: infer_uploaded_webcam_body_eq try_exceptP_def)
  obtain a b where loop: "frame_loop (\<lambda>_. \<not> stop) L conf h (next_slot w) (next_cap w) ?w1 = Some (a, b)"
    using assms run by (cases "frame_loop (\<lambda>_. \<not> stop) L conf h (next_slot w) (next_cap w) ?w1") auto
  have r: "r = (case a of Inl e \<Rightarrow> st_error Main (MsgVideoError e) b | Inr a \<Rightarrow> (Inr a, b))"
    using assms run loop by simp
  have "appends (handler_event conf) w b"
    using a1 frame_loop_appends [OF loop] by (simp add: appends_trans)
  then show ?thesis
    using r by (cases a) (auto simp: st_error_def emit_def intro!: appends_snoc)
qed

lemma infer_uploaded_webcam_appends:
  "infer_uploaded_webcam L conf h stop w = Some r \<Longrightarrow> appends (handler_event conf) w (snd r)"
  unfolding infer_uploaded_webcam_def
  by (erule local_scope_appends) (simp_all add: infer_uploaded_webcam_body_appends)

subsection \<open>When the loop ends\<close>

text \<open>
  C2. With the stop button not pressed and camera 0 present, the camera handler
  returns exactly when some read of the camera fails or some frame raises; a
  camera that keeps delivering frames that are processed keeps the handler
  in its loop for ever, since nothing in the loop can stop it.
\<close>

theorem webcam_returns_iff:
  assumes "camera L = Some f"
  shows "infer_uploaded_webcam L conf h False w \<noteq> None \<longleftrightarrow>
         (\<exists>n. case f n of None \<Rightarrow> True | Some fr \<Rightarrow> fst (frame_outcome L conf h (next_slot w) fr) \<noteq> Inr ())"
    (is "_ \<longleftrightarrow> (\<exists>n. ?stop n)")
proof -
  let ?w1 = "w\<lparr>caps := (caps w)(next_cap w \<mapsto> cam_capture L), next_cap := Suc (next_cap w),
          trace := trace w @ (if camera L \<noteq> None then [CapOpen (next_cap w)] else []) @ [StEmpty (next_slot w)],
          next_slot := Suc (next_slot w)\<rparr>"
  have k: "caps ?w1 (next_cap w) = Some (cam_capture L)" "cap_opened (cam_capture L)"
    using assms by (simp_all add: cam_capture_def)
  have st: "loop_stops_at L conf h (next_slot w) (cam_capture L) n \<longleftrightarrow> ?stop n" for n
    using assms by (simp add: loop_stops_at_def cam_capture_def)
  have "frame_loop (\<lambda>_. \<not> False) L conf h (next_slot w) (next_cap w) ?w1 \<noteq> None \<longleftrightarrow> (\<exists>n. ?stop n)"
  proof
    assume ret: "frame_loop (\<lambda>_. \<not> False) L conf h (next_slot w) (next_cap w) ?w1 \<noteq> None"
    show "\<exists>n. ?stop n"
    proof (rule ccontr)
      assume "\<not> (\<exists>n. ?stop n)"
      then have "frame_loop (\<lambda>_. \<not> False) L conf h (next_slot w) (next_cap w) ?w1 = None"
        by (intro frame_loop_diverges [OF _ k]) (simp_all add: st)
      with ret show False by simp
    qed
  next
    assume "\<exists>n. ?stop n"
    then obtain n where "?stop n" ..
    then have "\<forall>k. caps ?w1 (next_cap w) = Some k \<longrightarrow> cap_opened k \<longrightarrow> loop_stops_at L conf h (next_slot w) k n"
      using k(1) st by simp
    then show "frame_loop (\<lambda>_. \<not> False) L conf h (next_slot w) (next_cap w) ?w1 \<noteq> None"
      by (rule frame_loop_returns)
  qed
  then show ?thesis
    by (simp only: infer_uploaded_webcam_def local_scope_returns infer_uploaded_webcam_body_eq try_exceptP_returns)
qed

theorem webcam_returns_iff_witness:
  "camera (stub_lib None (Some (\<lambda>n. if n < 3 then Some stub_frame else None))) = Some (\<lambda>n. if n < 3 then Some stub_frame else None) \<and>
   infer_uploaded_webcam (stub_lib None (Some (\<lambda>n. if n < 3 then Some stub_frame else None))) (1/2) \<lparr>h_obj = 0, h_path = ''m'', h_weights = 0\<rparr> False init_world \<noteq> None"
proof -
  let ?f = "\<lambda>n::nat. if n < 3 then Some stub_frame else None"
  have c: "camera (stub_lib None (Some ?f)) = Some ?f" by (simp add: stub_lib_def)
  have ex: "\<exists>n. case ?f n of None \<Rightarrow> True
          | Some fr \<Rightarrow> fst (frame_outcome (stub_lib None (Some ?f)) (1/2) \<lparr>h_obj = 0, h_path = ''m'', h_weights = 0\<rparr> (next_slot init_world) fr) \<noteq> Inr ()"
    by (rule exI [of _ 3]) simp
  have "infer_uploaded_webcam (stub_lib None (Some ?f)) (1/2) \<lparr>h_obj = 0, h_path = ''m'', h_weights = 0\<rparr> False init_world \<noteq> None"
    by (rule iffD2 [OF webcam_returns_iff [OF c] ex])
  with c show ?thesis by (rule conjI)
qed

subsection \<open>The stop button\<close>

text \<open>
  C3. In the run in which the stop button was pressed, the handler opens the
  camera and creates the placeholder, then runs no inference and never calls
  \<^verbatim>\<open>release()\<close>: the device stays open until the handler returns, and only
  the destructor of the local capture closes it then.
\<close>

theorem webcam_stop_freed_on_return:
  assumes "camera L = Some f"
  shows "\<exists>w'. infer_uploaded_webcam L conf h True w = Some (Inr (), w') \<and>
           trace w' = trace w @ [CapOpen (next_cap w), StEmpty (next_slot w), CapFree (next_cap w)] \<and>
           \<not> cap_isOpened (next_cap w) w'"
proof -
  have "frame_loop (\<lambda>_. False) L conf h s c w0 = Some (Inr (), w0)" for s c w0
    by (subst frame_loop_unfold) simp
  with assms show ?thesis
    by (simp add: infer_uploaded_webcam_def local_scope_def infer_uploaded_webcam_body_eq try_exceptP_def
        cap_isOpened_def cam_capture_def cap_free_def)
qed

theorem webcam_stop_freed_on_return_witness:
  "camera (stub_lib None (Some (\<lambda>n. Some stub_frame))) = Some (\<lambda>n. Some stub_frame) \<and>
   (\<exists>w'. infer_uploaded_webcam (stub_lib None (Some (\<lambda>n. Some stub_frame))) (1/2) \<lparr>h_obj = 0, h_path = ''m'', h_weights = 0\<rparr> True init_world = Some (Inr (), w') \<and>
           trace w' = trace init_world @ [CapOpen (next_cap init_world), StEmpty (next_slot init_world), CapFree (next_cap init_world)] \<and>
           \<not> cap_isOpened (next_cap init_world) w')"
proof -
  have c: "camera (stub_lib None (Some (\<lambda>n. Some stub_frame))) = Some (\<lambda>n. Some stub_frame)"
    by (simp add: stub_lib_def)
  show ?thesis using c webcam_stop_freed_on_return [OF c] by blast
qed

subsection \<open>A camera that fails\<close>

text \<open>
  C4. A camera that delivers N frames, each processed, and then fails a read
  gets exactly N inference calls and N placeholder updates, one release, no
  error on the page, and ends closed.
\<close>

theorem webcam_frames_until_failure:
  assumes "camera L = Some f"
    and "\<forall>i < length frs. f i = Some (frs ! i)" and "f (length frs) = None"
    and "\<forall>fr \<in> set frs. fst (frame_outcome L conf h (next_slot w) fr) = Inr ()"
  shows "\<exists>w' new. infer_uploaded_webcam L conf h False w = Some (Inr (), w') \<and>
           trace w' = trace w @ new \<and>
           count_where is_predict new = length frs \<and>
           count_where (is_slot_image (next_slot w)) new = length frs \<and>
           count_where (is_release (next_cap w)) new = 1 \<and>
           count_where is_error new = 0 \<and>
           \<not> cap_isOpened (next_cap w) w'"
proof -
  let ?w1 = "w\<lparr>caps := (caps w)(next_cap w \<mapsto> cam_capture L), next_cap := Suc (next_cap w),
          trace := trace w @ (if camera L \<noteq> None then [CapOpen (next_cap w)] else []) @ [StEmpty (next_slot w)],
          next_slot := Suc (next_slot w)\<rparr>"
  have loop: "frame_loop (\<lambda>_. \<not> False) L conf h (next_slot w) (next_cap w) ?w1 =
     Some (Inr (), ?w1\<lparr>trace := trace ?w1 @ frames_events L conf h (next_slot w) frs @ [CapRelease (next_cap w)],
              caps := (caps ?w1)(next_cap w \<mapsto> cam_capture L\<lparr>cap_pos := cap_pos (cam_capture L) + length frs,
                                                          cap_opened := False\<rparr>)\<rparr>)"
    by (rule frame_loop_all_ok) (use assms in \<open>simp_all add: cam_capture_def\<close>)
  show ?thesis
    using assms(1) loop frames_events_counts [OF assms(4)]
    by (simp add: infer_uploaded_webcam_def local_scope_def infer_uploaded_webcam_body_eq try_exceptP_def
        cap_isOpened_def cap_free_def)
qed

theorem webcam_frames_until_failure_witness:
  "camera (stub_lib None (Some (\<lambda>n. if n < 3 then Some stub_frame else None))) = Some (\<lambda>n. if n < 3 then Some stub_frame else None) \<and>
   (\<exists>w' new. infer_uploaded_webcam (stub_lib None (Some (\<lambda>n. if n < 3 then Some stub_frame else None))) (1/2) \<lparr>h_obj = 0, h_path = ''m'', h_weights = 0\<rparr> False init_world = Some (Inr (), w') \<and>
           trace w' = trace init_world @ new \<and>
           count_where is_predict new = 3 \<and>
           count_where (is_slot_image (next_slot init_world)) new = 3 \<and>
           count_where (is_release (next_cap init_world)) new = 1 \<and>
           count_where is_error new = 0 \<and>
           \<not> cap_isOpened (next_cap init_world) w')"
proof -
  let ?f = "\<lambda>n::nat. if n < 3 then Some stub_frame else None"
  let ?L = "stub_lib None (Some ?f)"
  have c: "camera ?L = Some ?f" by (simp add: stub_lib_def)
  have pre: "\<forall>i < length (replicate 3 stub_frame). ?f i = Some (replicate 3 stub_frame ! i)" by simp
  have fail: "?f (length (replicate 3 stub_frame)) = None" by simp
  have ok: "\<forall>fr \<in> set (replicate 3 stub_frame).
      fst (frame_outcome ?L (1/2) \<lparr>h_obj = 0, h_path = ''m'', h_weights = 0\<rparr> (next_slot init_world) fr) = Inr ()"
    by (simp add: stub_lib_def frame_outcome_def)
  show ?thesis using c webcam_frames_until_failure [OF c pre fail ok] by simp
qed

text \<open>
  C5. When camera 0 is absent, the handler runs no inference, calls
  \<^verbatim>\<open>release()\<close> once, and shows no error: a capture error is not reported.
\<close>

theorem webcam_unavailable_unreported:
  assumes "camera L = None"
  shows "\<exists>w' new. infer_uploaded_webcam L conf h False w = Some (Inr (), w') \<and>
           trace w' = trace w @ new \<and>
           count_where is_predict new = 0 \<and>
           count_where is_error new = 0 \<and>
           count_where (is_release (next_cap w)) new = 1"
proof -
  have "caps w0 c = Some (cam_capture L) \<Longrightarrow>
        frame_loop (\<lambda>_. \<not> False) L conf h s c w0 = Some (Inr (), cap_release c w0)" for s c w0
    using assms by (subst frame_loop_unfold) (simp add: cap_read_def cam_capture_def)
  then show ?thesis
    using assms by (simp add: infer_uploaded_webcam_def local_scope_def infer_uploaded_webcam_body_eq
        try_exceptP_def cap_release_def cap_free_def)
qed

theorem webcam_unavailable_unreported_witness:
  "camera (stub_lib None None) = None \<and>
   (\<exists>w' new. infer_uploaded_webcam (stub_lib None None) (1/2) \<lparr>h_obj = 0, h_path = ''m'', h_weights = 0\<rparr> False init_world = Some (Inr (), w') \<and>
           trace w' = trace init_world @ new \<and>
           count_where is_predict new = 0 \<and>
           count_where is_error new = 0 \<and>
           count_where (is_release (next_cap init_world)) new = 1)"
proof -
  have c: "camera (stub_lib None None) = None" by (simp add: stub_lib_def)
  show ?thesis using c webcam_unavailable_unreported [OF c] by blast
qed

end
