(* ===== verification/PageSetup.thy ===== *)
theory PageSetup
  imports World
begin

text \<open>
  The page setup at the top of \<^verbatim>\<open>src/app.py\<close> (lines 12--82): the background
  image is read from \<^verbatim>\<open>back_images/image2.jpg\<close> and base64-encoded
  (\<^verbatim>\<open>get_image_base64\<close>), the page is configured, a style block embeds the image
  as a \<^verbatim>\<open>data:\<close> URL, and the title and the first sidebar header are shown.
  \<open>b64encode\<close> is \<^verbatim>\<open>base64.b64encode\<close> (RFC 4648, with padding). The
  fixed text of the style block is not modelled, only the URL computed from
  the file. What matters to the rest of the script is the error path: a
  missing file raises before \<^verbatim>\<open>st.set_page_config\<close> (C19, in App).
\<close>

subsection \<open>Base64\<close>

definition b64_alphabet :: string where
  "b64_alphabet = ''ABCDEFGHIJKLMNOPQRSTUVWXYZabcdefghijklmnopqrstuvwxyz0123456789+/''"

definition b64_sym :: "nat \<Rightarrow> char" where
  "b64_sym i = b64_alphabet ! i"

fun b64encode :: "bytes \<Rightarrow> string" where
  "b64encode (a # b # c # rest) =
     [b64_sym (a div 4), b64_sym (a mod 4 * 16 + b div 16), b64_sym (b mod 16 * 4 + c div 64), b64_sym (c mod 64)]
     @ b64encode rest"
| "b64encode [a, b] = [b64_sym (a div 4), b64_sym (a mod 4 * 16 + b div 16), b64_sym (b mod 16 * 4), CHR ''='']"
| "b64encode [a] = [b64_sym (a div 4), b64_sym (a mod 4 * 16), CHR ''='', CHR ''='']"
| "b64encode [] = []"

text \<open>The background image the script embeds, relative to the working directory.\<close>

definition BACKGROUND_IMAGE :: path where
  "BACKGROUND_IMAGE = ''back_images/image2.jpg''"

text \<open>Lines 13--15: \<^verbatim>\<open>base64.b64encode(open(image_path, "rb").read()).decode()\<close>.\<close>

definition get_image_base64 :: "lib \<Rightarrow> path \<Rightarrow> (world, string) eff" where
  "get_image_base64 L image_path = bindE (lift (read_file L image_path)) (\<lambda>data. ret (b64encode data))"

text \<open>The URL of line 32, \<^verbatim>\<open>data:image/png;base64,{background_image_base64}\<close>.\<close>

definition background_url :: "string \<Rightarrow> string" where
  "background_url b = ''data:image/png;base64,'' @ b"

text \<open>Lines 17--82, in order: read and encode, configure, style, title, header.\<close>

definition page_setup :: "lib \<Rightarrow> (world, unit) eff" where
  "page_setup L =
     bindE (get_image_base64 L BACKGROUND_IMAGE) (\<lambda>background_image_base64.
     bindE (emit StPageConfig) (\<lambda>_.
     bindE (emit (StStyle (background_url background_image_base64))) (\<lambda>_.
     bindE (emit StTitle) (\<lambda>_.
     emit (StHeader HdModelConfig)))))"

text \<open>The events of a page setup that completes.\<close>

definition page_events :: "string \<Rightarrow> event list" where
  "page_events b = [StPageConfig, StStyle (background_url b), StTitle, StHeader HdModelConfig]"

subsection \<open>The page setup\<close>

lemma page_setup_ok:
  "read_file L BACKGROUND_IMAGE = Inr bs \<Longrightarrow>
   page_setup L w = (Inr (), w\<lparr>trace := trace w @ page_events (b64encode bs)\<rparr>)"
  by (simp add: page_setup_def get_image_base64_def emit_def page_events_def bindE_def)

lemma page_setup_err:
  "read_file L BACKGROUND_IMAGE = Inl e \<Longrightarrow> page_setup L w = (Inl e, w)"
  by (simp add: page_setup_def get_image_base64_def)

end
