(* ===== verification/App.thy ===== *)
theory App
  imports Config Loader ImageInfer VideoInfer Webcam PageSetup
begin

text \<open>
  The session controller: the module-level script \<^verbatim>\<open>src/app.py\<close>, which
  Streamlit runs from the top on every interaction. It reads the sidebar
  (task, model, confidence, source), loads the model through the cached
  loader, and dispatches to the handler of the chosen source. The variable
  \<^verbatim>\<open>model\<close> is assigned only when the load succeeds; the handlers are called
  with it in every case, so a failed load makes the call raise NameError.
  \<open>script_run\<close> is Streamlit's script runner: an exception that leaves the
  script is shown on the page and ends the run.
\<close>

definition TASK_LIST :: "string list" where
  "TASK_LIST = [''detect'']"

text \<open>What the user set in the widgets for this run.\<close>

record ui_input =
  in_task :: nat
  in_model :: nat
  in_conf :: int
  in_source :: nat
  in_image :: "upload option"
  in_video :: "upload option"
  in_start :: bool
  in_stop :: bool

text \<open>
  \<^verbatim>\<open>float(st.sidebar.slider(..., 30, 100, 50)) / 100\<close>, computed exactly (the
  float is the nearest double of this rational).
\<close>

definition confidence_of :: "int \<Rightarrow> rat" where
  "confidence_of v = of_int (slider 30 100 v) / 100"

text \<open>Lines 84--106: the task and the model in the sidebar, and the model path.\<close>

definition sidebar_model :: "config \<Rightarrow> ui_input \<Rightarrow> (world, path) eff" where
  "sidebar_model cfg ui =
     (let task_type = selectbox TASK_LIST (in_task ui) in
      bindE (if task_type = Some ''detect''
             then ret (selectbox (DETECTION_MODEL_LIST cfg) (in_model ui))
             else bindE (st_error Main MsgOnlyDetection) (\<lambda>_. ret None)) (\<lambda>model_type.
      case model_type of
        Some m \<Rightarrow>
          (if m \<noteq> [] then ret (py_Path (DETECTION_MODEL_DIR cfg) m)
           else bindE (st_error Main MsgSelectModel) (\<lambda>_. ret []))
      | None \<Rightarrow> bindE (st_error Main MsgSelectModel) (\<lambda>_. ret [])))"

text \<open>Lines 108--112: the load, with \<^verbatim>\<open>model\<close> left unassigned (\<open>None\<close>) when it raises.\<close>

definition load_block :: "lib \<Rightarrow> path \<Rightarrow> (world, handle option) eff" where
  "load_block L model_path =
     try_except (bindE (load_model L model_path) (\<lambda>m. ret (Some m)))
       (\<lambda>e. bindE (st_error Main (MsgLoadFailed model_path)) (\<lambda>_. ret None))"

text \<open>Lines 114--128: the source in the sidebar and the call of its handler.\<close>

definition dispatch :: "config \<Rightarrow> lib \<Rightarrow> ui_input \<Rightarrow> rat \<Rightarrow> handle option \<Rightarrow> (world, unit) peff" where
  "dispatch cfg L ui confidence model =
     (let source_selectbox = selectbox (SOURCES_LIST cfg) (in_source ui) in
      bindP (lift (py_nth (SOURCES_LIST cfg) 0)) (\<lambda>src0.
      if source_selectbox = Some src0 then
        bindP (lift (py_bound ''model'' model)) (\<lambda>m.
          total (infer_uploaded_image L confidence m (in_image ui) (in_start ui)))
      else bindP (lift (py_nth (SOURCES_LIST cfg) 1)) (\<lambda>src1.
      if source_selectbox = Some src1 then
        bindP (lift (py_bound ''model'' model)) (\<lambda>m.
          infer_uploaded_video L confidence m (in_video ui) (in_start ui))
      else bindP (lift (py_nth (SOURCES_LIST cfg) 2)) (\<lambda>src2.
      if source_selectbox = Some src2 then
        bindP (lift (py_bound ''model'' model)) (\<lambda>m.
          infer_uploaded_webcam L confidence m (in_stop ui))
      else total (st_error Main MsgOnlyImageVideo)))))"

text \<open>
  Lines 84--128: the sidebar, the load, the second sidebar header (line 115)
  and the dispatch; the confidence is read in between.
\<close>

definition app_body :: "config \<Rightarrow> lib \<Rightarrow> ui_input \<Rightarrow> (world, unit) peff" where
  "app_body cfg L ui =
     bindP (sidebar_model cfg ui) (\<lambda>model_path.
     bindP (load_block L model_path) (\<lambda>model.
     bindP (emit (StHeader HdSourceConfig)) (\<lambda>_.
     dispatch cfg L ui (confidence_of (in_conf ui)) model)))"

text \<open>The whole script: the page setup of lines 12--82, then the body.\<close>

definition app_main :: "config \<Rightarrow> lib \<Rightarrow> ui_input \<Rightarrow> (world, unit) peff" where
  "app_main cfg L ui = bindP (page_setup L) (\<lambda>_. app_body cfg L ui)"

text \<open>One script run: an exception that leaves the script is shown on the page.\<close>

definition script_run :: "config \<Rightarrow> lib \<Rightarrow> ui_input \<Rightarrow> (world, unit) peff" where
  "script_run cfg L ui = try_exceptP (app_main cfg L ui) (\<lambda>e. emit (StException e))"

text \<open>
  The source the sidebar settles on: the chosen index, or the first option
  when the index is out of range (Streamlit keeps a valid selection).
\<close>

definition src_index :: "ui_input \<Rightarrow> nat" where
  "src_index ui = (if in_source ui < 3 then in_source ui else 0)"

subsection \<open>Examples\<close>

text \<open>A run on the image source: the first model, threshold 0.5, an uploaded image, Detect pressed.\<close>

definition demo_ui :: ui_input where
  "demo_ui = \<lparr>in_task = 0, in_model = 0, in_conf = 50, in_source = 0,
     in_image = Some image_upload, in_video = None, in_start = True, in_stop = False\<rparr>"

text \<open>A deployment whose weights file is missing: \<^verbatim>\<open>YOLO(path)\<close> raises.\<close>

definition missing_weights_lib :: lib where
  "missing_weights_lib = (stub_lib None None)\<lparr>yolo := (\<lambda>p. Inl (LibError ''No such file''))\<rparr>"

text \<open>A run on the video source with Detect pressed.\<close>

definition demo_video_ui :: ui_input where
  "demo_video_ui = demo_ui\<lparr>in_source := 1, in_image := None, in_video := Some video_upload\<rparr>"

text \<open>A deployment started from a directory without \<^verbatim>\<open>back_images/\<close>.\<close>

definition no_background_lib :: lib where
  "no_background_lib = (stub_lib None None)\<lparr>read_file := (\<lambda>p. Inl (LibError ''No such file or directory''))\<rparr>"

subsection \<open>The blocks of the script\<close>

lemma sidebar_model_Some:
  "selectbox (DETECTION_MODEL_LIST cfg) (in_model ui) = Some m \<Longrightarrow> m \<noteq> [] \<Longrightarrow>
   sidebar_model cfg ui w = (Inr (py_Path (DETECTION_MODEL_DIR cfg) m), w)"
  by (simp add: sidebar_model_def TASK_LIST_def)

lemma sidebar_model_result:
  "\<exists>p. sidebar_model cfg ui w \<in> {(Inr p, w), (Inr p, w\<lparr>trace := trace w @ [StError Main MsgSelectModel]\<rparr>)}"
  by (auto simp: sidebar_model_def TASK_LIST_def st_error_def emit_def split: option.splits)

lemma load_block_ok:
  "load_model L p w = (Inr h, w') \<Longrightarrow> load_block L p w = (Inr (Some h), w')"
  by (simp add: load_block_def try_except_def bindE_def)

lemma load_block_err:
  "load_model L p w = (Inl e, w') \<Longrightarrow>
   load_block L p w = (Inr None, w'\<lparr>trace := trace w' @ [StError Main (MsgLoadFailed p)]\<rparr>)"
  by (simp add: load_block_def try_except_def bindE_def st_error_def emit_def)

lemma config_sources:
  assumes "config_wf cfg" "i < 3" "j < 3"
  shows "selectbox (SOURCES_LIST cfg) i = Some (SOURCES_LIST cfg ! i)"
    and "py_nth (SOURCES_LIST cfg) j = Inr (SOURCES_LIST cfg ! j)"
    and "SOURCES_LIST cfg ! i = SOURCES_LIST cfg ! j \<longleftrightarrow> i = j"
  using assms by (simp_all add: config_wf_def selectbox_nth py_nth_def nth_eq_iff_index_eq)

lemma dispatch_cases:
  assumes "config_wf cfg"
  shows "dispatch cfg L ui c model w =
     (case py_bound ''model'' model of
        Inl e \<Rightarrow> Some (Inl e, w)
      | Inr m \<Rightarrow>
          (if src_index ui = 0 then Some (infer_uploaded_image L c m (in_image ui) (in_start ui) w)
           else if src_index ui = 1 then infer_uploaded_video L c m (in_video ui) (in_start ui) w
           else infer_uploaded_webcam L c m (in_stop ui) w))"
proof -
  let ?S = "SOURCES_LIST cfg"
  have len: "length ?S = 3" using assms by (simp add: config_wf_def)
  have sel: "selectbox ?S (in_source ui) = Some (?S ! src_index ui)"
    using len by (cases ?S) (auto simp: selectbox_def src_index_def)
  have nth: "py_nth ?S 0 = Inr (?S ! 0)" "py_nth ?S 1 = Inr (?S ! 1)" "py_nth ?S 2 = Inr (?S ! 2)"
    using len by (simp_all add: py_nth_def)
  have dis: "?S ! 1 \<noteq> ?S ! 0" "?S ! 2 \<noteq> ?S ! 0" "?S ! 2 \<noteq> ?S ! 1"
    using config_sources(3) [OF assms] by simp_all
  have "src_index ui = 0 \<or> src_index ui = 1 \<or> src_index ui = 2"
    by (simp add: src_index_def) arith
  then show ?thesis
    using sel nth dis
    by (elim disjE) (simp_all add: dispatch_def bindP_def Let_def split: sum.splits)
qed

lemma dispatch_appends:
  assumes "config_wf cfg" "dispatch cfg L ui c model w = Some (r, w')"
  shows "appends (handler_event c) w w'"
proof (cases model)
  case None
  with assms show ?thesis by (simp add: dispatch_cases)
next
  case (Some m)
  consider "src_index ui = 0" | "src_index ui = 1" | "src_index ui \<noteq> 0" "src_index ui \<noteq> 1" by blast
  then show ?thesis
  proof cases
    case 1
    with assms Some show ?thesis
      using infer_uploaded_image_appends [of c w L m "in_image ui" "in_start ui"]
      by (simp add: dispatch_cases)
  next
    case 2
    with assms Some show ?thesis
      using infer_uploaded_video_appends [of L c m "in_video ui" "in_start ui" w "(r, w')"]
      by (simp add: dispatch_cases)
  next
    case 3
    with assms Some show ?thesis
      using infer_uploaded_webcam_appends [of L c m "in_stop ui" w "(r, w')"]
      by (simp add: dispatch_cases)
  qed
qed

lemma run_event_no_fallback:
  "\<not> run_event c (StError k MsgOnlyDetection)" "\<not> run_event c (StError k MsgOnlyImageVideo)"
  by (cases k; simp)+

lemma confidence_of_bounds: "3 / 10 \<le> confidence_of v \<and> confidence_of v \<le> 1"
  by (simp add: confidence_of_def slider_def)

subsection \<open>A whole run\<close>

text \<open>The runner, after the page setup: an exception of the body is shown on the page.\<close>

lemma script_run_page_ok:
  "page_setup L w = (Inr (), w0) \<Longrightarrow>
   script_run cfg L ui w = try_exceptP (app_body cfg L ui) (\<lambda>e. emit (StException e)) w0"
  by (simp add: script_run_def app_main_def bindP_def try_exceptP_def)

lemma script_run_page_err:
  "page_setup L w = (Inl e, w0) \<Longrightarrow>
   script_run cfg L ui w = Some (Inr (), w0\<lparr>trace := trace w0 @ [StException e]\<rparr>)"
  by (simp add: script_run_def app_main_def bindP_def try_exceptP_def emit_def)

lemma appends_trace:
  "appends P w w' \<Longrightarrow> \<exists>new. trace w' = trace w @ new \<and> list_all P new"
  by (simp add: appends_def)

lemma appends_cache_wf: "appends P w w' \<Longrightarrow> cache_wf w \<Longrightarrow> cache_wf w'"
  by (simp add: appends_def cache_wf_def)

text \<open>
  What the body of a run that returns does to the world: it appends events a
  run may emit, at the run's threshold, and keeps the cache invariant.
\<close>

text \<open>The steps of the body of a run that returns, as the code takes them.\<close>

lemma body_run_cases:
  assumes "try_exceptP (app_body cfg L ui) (\<lambda>e. emit (StException e)) w = Some (r, w')"
  obtains p w1 res wL model w2 r3 w3 where
    "sidebar_model cfg ui w = (Inr p, w1)"
    "w1 = w \<or> w1 = w\<lparr>trace := trace w @ [StError Main MsgSelectModel]\<rparr>"
    "load_model L p w1 = (res, wL)" "load_block L p w1 = (Inr model, w2)"
    "w2 = wL \<or> w2 = wL\<lparr>trace := trace wL @ [StError Main (MsgLoadFailed p)]\<rparr>"
    "dispatch cfg L ui (confidence_of (in_conf ui)) model
       (w2\<lparr>trace := trace w2 @ [StHeader HdSourceConfig]\<rparr>) = Some (r3, w3)"
    "w' = w3 \<or> (\<exists>e. w' = w3\<lparr>trace := trace w3 @ [StException e]\<rparr>)"
proof -
  obtain p w1 where sb: "sidebar_model cfg ui w = (Inr p, w1)"
    and w1: "w1 = w \<or> w1 = w\<lparr>trace := trace w @ [StError Main MsgSelectModel]\<rparr>"
    using sidebar_model_result [of cfg ui w] by auto
  obtain res wL where ld: "load_model L p w1 = (res, wL)" by fastforce
  obtain model w2 where lb: "load_block L p w1 = (Inr model, w2)"
    and w2: "w2 = wL \<or> w2 = wL\<lparr>trace := trace wL @ [StError Main (MsgLoadFailed p)]\<rparr>"
    using ld by (cases res) (auto simp: load_block_ok load_block_err)
  let ?w2 = "w2\<lparr>trace := trace w2 @ [StHeader HdSourceConfig]\<rparr>"
  let ?c = "confidence_of (in_conf ui)"
  obtain r3 w3 where dp: "dispatch cfg L ui ?c model ?w2 = Some (r3, w3)"
    using assms sb lb
    by (cases "dispatch cfg L ui ?c model ?w2") (auto simp: app_body_def bindP_def try_exceptP_def emit_def)
  have "w' = w3 \<or> (\<exists>e. w' = w3\<lparr>trace := trace w3 @ [StException e]\<rparr>)"
  proof (cases r3)
    case (Inl e)
    with assms sb lb dp have "w' = w3\<lparr>trace := trace w3 @ [StException e]\<rparr>"
      by (simp add: app_body_def bindP_def try_exceptP_def emit_def)
    then show ?thesis by blast
  next
    case (Inr u)
    with assms sb lb dp show ?thesis by (simp add: app_body_def bindP_def try_exceptP_def emit_def)
  qed
  with sb w1 ld lb w2 dp that show ?thesis by blast
qed

text \<open>A run that returns: either the background file is missing, or the body ran after the page setup.\<close>

lemma script_run_cases:
  assumes "script_run cfg L ui w = Some (r, w')"
  obtains (no_background) e where "read_file L BACKGROUND_IMAGE = Inl e"
      "w' = w\<lparr>trace := trace w @ [StException e]\<rparr>"
  | (body) bs where "read_file L BACKGROUND_IMAGE = Inr bs"
      "try_exceptP (app_body cfg L ui) (\<lambda>e. emit (StException e))
         (w\<lparr>trace := trace w @ page_events (b64encode bs)\<rparr>) = Some (r, w')"
proof (cases "read_file L BACKGROUND_IMAGE")
  case (Inl e)
  with assms have "w' = w\<lparr>trace := trace w @ [StException e]\<rparr>"
    by (simp add: script_run_page_err [OF page_setup_err])
  with Inl show ?thesis by (rule no_background)
next
  case (Inr bs)
  with assms show ?thesis by (simp add: script_run_page_ok [OF page_setup_ok] body)
qed

text \<open>
  What the body of a run that returns does to the world: it appends events a
  run may emit, at the run's threshold, and keeps the cache invariant.
\<close>

lemma body_run_events:
  assumes cfg: "config_wf cfg"
    and run: "try_exceptP (app_body cfg L ui) (\<lambda>e. emit (StException e)) w = Some (r, w')"
  shows "(\<exists>new. trace w' = trace w @ new \<and> list_all (run_event (confidence_of (in_conf ui))) new) \<and>
         (cache_wf w \<longrightarrow> cache_wf w')"
proof -
  let ?c = "confidence_of (in_conf ui)"
  from run obtain p w1 res wL model w2 r3 w3 where
    w1: "w1 = w \<or> w1 = w\<lparr>trace := trace w @ [StError Main MsgSelectModel]\<rparr>"
    and ld: "load_model L p w1 = (res, wL)"
    and w2: "w2 = wL \<or> w2 = wL\<lparr>trace := trace wL @ [StError Main (MsgLoadFailed p)]\<rparr>"
    and dp: "dispatch cfg L ui ?c model (w2\<lparr>trace := trace w2 @ [StHeader HdSourceConfig]\<rparr>) = Some (r3, w3)"
    and w': "w' = w3 \<or> (\<exists>e. w' = w3\<lparr>trace := trace w3 @ [StException e]\<rparr>)"
    by (rule body_run_cases)
  have a1: "appends (run_event ?c) w w1"
    using w1 by (auto intro: appends_emit)
  obtain evs where wL: "trace wL = trace w1 @ evs" "set evs \<subseteq> {ModelLoad p}"
    using load_model_frame(4) [OF ld] by blast
  have a2: "appends (run_event ?c) wL (w2\<lparr>trace := trace w2 @ [StHeader HdSourceConfig]\<rparr>)"
    using w2 by (auto intro!: appends_events)
  have a3: "appends (run_event ?c) (w2\<lparr>trace := trace w2 @ [StHeader HdSourceConfig]\<rparr>) w3"
    using dispatch_appends [OF cfg dp] by (rule appends_mono) (rule handler_event_run_event)
  have a4: "appends (run_event ?c) w3 w'"
    using w' by (auto intro: appends_emit)
  have aL: "appends (run_event ?c) wL w'"
    using a2 a3 a4 by (blast intro: appends_trans)
  have "\<exists>new. trace w' = trace w @ new \<and> list_all (run_event ?c) new"
  proof -
    from appends_trace [OF a1] obtain n1 where "trace w1 = trace w @ n1" "list_all (run_event ?c) n1" by blast
    moreover from appends_trace [OF aL] obtain n2 where "trace w' = trace wL @ n2" "list_all (run_event ?c) n2"
      by blast
    moreover have "list_all (run_event ?c) evs" using wL(2) by (auto simp: list_all_iff)
    ultimately show ?thesis using wL(1)
      by (intro exI [of _ "n1 @ evs @ n2"]) simp
  qed
  moreover have "cache_wf w'" if "cache_wf w"
  proof -
    have "cache_wf w1" using that a1 by (rule appends_cache_wf [rotated])
    then have "cache_wf wL" using ld by (rule load_model_cache_wf)
    then show ?thesis using aL by (rule appends_cache_wf [rotated])
  qed
  ultimately show ?thesis by blast
qed

lemma script_run_events:
  assumes cfg: "config_wf cfg" and run: "script_run cfg L ui w = Some (r, w')"
  shows "(\<exists>new. trace w' = trace w @ new \<and> list_all (run_event (confidence_of (in_conf ui))) new) \<and>
         (cache_wf w \<longrightarrow> cache_wf w')"
  using run
proof (cases rule: script_run_cases)
  case (no_background e)
  show ?thesis
    unfolding no_background(2) by (intro conjI exI [of _ "[StException e]"]) (simp_all add: cache_wf_def)
next
  case (body bs)
  let ?c = "confidence_of (in_conf ui)"
  let ?w0 = "w\<lparr>trace := trace w @ page_events (b64encode bs)\<rparr>"
  have a0: "appends (run_event ?c) w ?w0"
    by (rule appends_events) (simp add: page_events_def)
  note b = body_run_events [OF cfg body(2)]
  from appends_trace [OF a0] obtain n0 where n0: "trace ?w0 = trace w @ n0" "list_all (run_event ?c) n0"
    by blast
  from b obtain n where n: "trace w' = trace ?w0 @ n" "list_all (run_event ?c) n" by blast
  have "trace w' = trace w @ (n0 @ n)" "list_all (run_event ?c) (n0 @ n)"
    using n n0 by simp_all
  moreover have "cache_wf w \<longrightarrow> cache_wf w'"
    using b appends_cache_wf [OF a0] by blast
  ultimately show ?thesis by blast
qed

text \<open>
  A run returns unless it runs the camera loop: the image handler has no
  loop, and the video loop ends with the decoded frames.
\<close>

lemma body_run_returns:
  assumes "config_wf cfg" "src_index ui \<noteq> 2 \<or> in_stop ui"
  shows "try_exceptP (app_body cfg L ui) (\<lambda>e. emit (StException e)) w \<noteq> None"
proof -
  obtain p w1 where sb: "sidebar_model cfg ui w = (Inr p, w1)"
    using sidebar_model_result [of cfg ui w] by auto
  obtain res wL where ld: "load_model L p w1 = (res, wL)" by fastforce
  obtain model w2 where lb: "load_block L p w1 = (Inr model, w2)"
    using ld by (cases res) (auto simp: load_block_ok load_block_err)
  let ?w2 = "w2\<lparr>trace := trace w2 @ [StHeader HdSourceConfig]\<rparr>"
  have "frame_loop (\<lambda>_. \<not> True) L c m s k w0 = Some (Inr (), w0)" for c m s k w0
    by (subst frame_loop_unfold) simp
  then have stop: "infer_uploaded_webcam L c m True w0 \<noteq> None" for c m w0
    by (simp add: infer_uploaded_webcam_def local_scope_def infer_uploaded_webcam_body_eq try_exceptP_def)
  have "src_index ui = 0 \<or> src_index ui = 1 \<or> (src_index ui = 2 \<and> in_stop ui)"
    using assms(2) by (auto simp: src_index_def less_Suc_eq numeral_3_eq_3 split: if_splits)
  then have "dispatch cfg L ui (confidence_of (in_conf ui)) model ?w2 \<noteq> None"
    using assms(1) infer_uploaded_video_returns stop
    by (elim disjE conjE) (simp_all add: dispatch_cases split: sum.splits)
  then show ?thesis
    unfolding try_exceptP_returns using sb lb by (simp add: app_body_def bindP_def emit_def)
qed

text \<open>The example run of the image source returns.\<close>

lemma demo_run_returns: "\<exists>r w'. script_run default_config (stub_lib None None) demo_ui init_world = Some (r, w')"
proof -
  have "src_index demo_ui \<noteq> 2 \<or> in_stop demo_ui" by (simp add: demo_ui_def src_index_def)
  from body_run_returns [OF default_config_wf this]
  have "try_exceptP (app_body default_config (stub_lib None None) demo_ui) (\<lambda>e. emit (StException e))
      (init_world\<lparr>trace := trace init_world @ page_events (b64encode [137, 80, 78, 71])\<rparr>) \<noteq> None" .
  moreover have "read_file (stub_lib None None) BACKGROUND_IMAGE = Inr [137, 80, 78, 71]"
    by (simp add: stub_lib_def)
  ultimately show ?thesis by (auto simp: script_run_page_ok [OF page_setup_ok])
qed

subsection \<open>Properties of a run\<close>

text \<open>
  C15. When the weights of the selected model cannot be loaded, the script
  shows the load error, the source header, and then fails with NameError:
  \<^verbatim>\<open>model\<close> was never assigned, yet every handler call reads it. The run shows
  the exception instead of stopping after the load error.
\<close>

theorem app_model_unbound_after_load_failure:
  assumes "selectbox (DETECTION_MODEL_LIST cfg) (in_model ui) = Some m" "m \<noteq> []"
    and "cache w (py_Path (DETECTION_MODEL_DIR cfg) m) = None"
    and "yolo L (py_Path (DETECTION_MODEL_DIR cfg) m) = Inl e"
    and "read_file L BACKGROUND_IMAGE = Inr bs"
    and "config_wf cfg"
  shows "script_run cfg L ui w =
     Some (Inr (), w\<lparr>trace := trace w @ page_events (b64encode bs) @
       [ModelLoad (py_Path (DETECTION_MODEL_DIR cfg) m),
        StError Main (MsgLoadFailed (py_Path (DETECTION_MODEL_DIR cfg) m)),
        StHeader HdSourceConfig,
        StException (NameError ''model'')]\<rparr>)"
proof -
  let ?p = "py_Path (DETECTION_MODEL_DIR cfg) m"
  let ?w0 = "w\<lparr>trace := trace w @ page_events (b64encode bs)\<rparr>"
  have "load_block L ?p ?w0 =
      (Inr None, ?w0\<lparr>trace := trace ?w0 @ [ModelLoad ?p, StError Main (MsgLoadFailed ?p)]\<rparr>)"
    using assms(3,4) by (simp add: load_block_err load_model_miss_err)
  then show ?thesis
    using sidebar_model_Some [OF assms(1,2)] dispatch_cases [OF assms(6)]
    by (simp add: script_run_page_ok [OF page_setup_ok [OF assms(5)]] app_body_def bindP_def
        try_exceptP_def emit_def)
qed

theorem app_model_unbound_after_load_failure_witness:
  "script_run default_config missing_weights_lib demo_ui init_world =
     Some (Inr (), init_world\<lparr>trace := page_events (b64encode [137, 80, 78, 71]) @
       [ModelLoad ''weights/detection/yolov8n.pt'',
        StError Main (MsgLoadFailed ''weights/detection/yolov8n.pt''),
        StHeader HdSourceConfig,
        StException (NameError ''model'')]\<rparr>)"
proof -
  have p: "py_Path (DETECTION_MODEL_DIR default_config) ''yolov8n.pt'' = ''weights/detection/yolov8n.pt''"
    by (simp add: default_config_def py_Path_def)
  have sel: "selectbox (DETECTION_MODEL_LIST default_config) (in_model demo_ui) = Some ''yolov8n.pt''"
    by (simp add: default_config_def)
  have c: "cache init_world (py_Path (DETECTION_MODEL_DIR default_config) ''yolov8n.pt'') = None"
    by (simp add: init_world_def)
  have y: "yolo missing_weights_lib (py_Path (DETECTION_MODEL_DIR default_config) ''yolov8n.pt'') =
      Inl (LibError ''No such file'')"
    by (simp add: missing_weights_lib_def stub_lib_def)
  have rf: "read_file missing_weights_lib BACKGROUND_IMAGE = Inr [137, 80, 78, 71]"
    by (simp add: missing_weights_lib_def stub_lib_def)
  show ?thesis
    using app_model_unbound_after_load_failure [OF sel _ c y rf default_config_wf] p
    by (simp add: init_world_def)
qed

text \<open>
  C16. Every inference call of a run uses the threshold the confidence
  slider gives, which lies between 0.3 and 1.
\<close>

theorem app_predicts_at_run_threshold:
  assumes "config_wf cfg" "script_run cfg L ui w = Some (r, w')"
  shows "\<exists>new. trace w' = trace w @ new \<and>
     list_all (\<lambda>ev. case ev of Predict _ _ c \<Rightarrow> c = confidence_of (in_conf ui) \<and> 3 / 10 \<le> c \<and> c \<le> 1
                             | _ \<Rightarrow> True) new"
proof -
  obtain new where "trace w' = trace w @ new" "list_all (run_event (confidence_of (in_conf ui))) new"
    using script_run_events [OF assms] by blast
  moreover have "c = confidence_of (in_conf ui)" if "Predict a b c \<in> set new" for a b c
    using that \<open>list_all (run_event (confidence_of (in_conf ui))) new\<close> by (fastforce simp: list_all_iff)
  ultimately show ?thesis
    using confidence_of_bounds [of "in_conf ui"] by (auto simp: list_all_iff split: event.splits)
qed

theorem app_predicts_at_run_threshold_witness:
  "config_wf default_config \<and>
   (\<exists>r w'. script_run default_config (stub_lib None None) demo_ui init_world = Some (r, w') \<and>
     (\<exists>new. trace w' = trace init_world @ new \<and>
       list_all (\<lambda>ev. case ev of Predict _ _ c \<Rightarrow> c = confidence_of (in_conf demo_ui) \<and> 3 / 10 \<le> c \<and> c \<le> 1
                               | _ \<Rightarrow> True) new))"
proof -
  obtain r w' where eq: "script_run default_config (stub_lib None None) demo_ui init_world = Some (r, w')"
    using demo_run_returns by blast
  note th = app_predicts_at_run_threshold [OF default_config_wf eq]
  show ?thesis using default_config_wf eq th by blast
qed

text \<open>
  C17. The fallback errors of the script ("only detection is implemented",
  "only image and video sources are implemented") never appear with the
  shipped configuration: the task list has one entry and the source
  selectbox can only return one of the three sources tested.
\<close>

theorem app_never_shows_fallback_errors:
  assumes "config_wf cfg" "script_run cfg L ui w = Some (r, w')"
  shows "\<exists>new. trace w' = trace w @ new \<and>
     (\<forall>k. StError k MsgOnlyDetection \<notin> set new \<and> StError k MsgOnlyImageVideo \<notin> set new)"
proof -
  obtain new where "trace w' = trace w @ new" "list_all (run_event (confidence_of (in_conf ui))) new"
    using script_run_events [OF assms] by blast
  then show ?thesis
    using run_event_no_fallback by (fastforce simp: list_all_iff)
qed

theorem app_never_shows_fallback_errors_witness:
  "config_wf default_config \<and>
   (\<exists>r w'. script_run default_config (stub_lib None None) demo_ui init_world = Some (r, w') \<and>
     (\<exists>new. trace w' = trace init_world @ new \<and>
       (\<forall>k. StError k MsgOnlyDetection \<notin> set new \<and> StError k MsgOnlyImageVideo \<notin> set new)))"
proof -
  obtain r w' where eq: "script_run default_config (stub_lib None None) demo_ui init_world = Some (r, w')"
    using demo_run_returns by blast
  note th = app_never_shows_fallback_errors [OF default_config_wf eq]
  show ?thesis using default_config_wf eq th by blast
qed

text \<open>
  C19. When the background image cannot be read (the server was started from
  another directory), the script raises at line 18, before the page is even
  configured: the page shows only the exception, with no sidebar and no
  source.
\<close>

theorem app_missing_background_crashes:
  assumes "read_file L BACKGROUND_IMAGE = Inl e"
  shows "script_run cfg L ui w = Some (Inr (), w\<lparr>trace := trace w @ [StException e]\<rparr>)"
  by (rule script_run_page_err [OF page_setup_err [OF assms]])

theorem app_missing_background_crashes_witness:
  "read_file no_background_lib BACKGROUND_IMAGE = Inl (LibError ''No such file or directory'') \<and>
   script_run default_config no_background_lib demo_ui init_world =
     Some (Inr (), init_world\<lparr>trace := [StException (LibError ''No such file or directory'')]\<rparr>)"
proof -
  have rf: "read_file no_background_lib BACKGROUND_IMAGE = Inl (LibError ''No such file or directory'')"
    by (simp add: no_background_lib_def)
  from rf app_missing_background_crashes [OF rf, of default_config demo_ui init_world] show ?thesis
    by (simp add: init_world_def)
qed

text \<open>
  C20. Every run returns unless it runs the camera loop with the stop button
  not pressed: the page setup and the image handler are straight-line code,
  and the video loop ends when the decoded frames run out, whatever the model
  does. Only the camera can keep a run, and the page, busy for ever.
\<close>

theorem script_run_returns_unless_camera:
  assumes "config_wf cfg" "src_index ui \<noteq> 2 \<or> in_stop ui"
  shows "script_run cfg L ui w \<noteq> None"
proof (cases "read_file L BACKGROUND_IMAGE")
  case (Inl e)
  then show ?thesis by (simp add: script_run_page_err [OF page_setup_err])
next
  case (Inr bs)
  then show ?thesis
    using body_run_returns [OF assms] by (simp add: script_run_page_ok [OF page_setup_ok])
qed

theorem script_run_returns_unless_camera_witness:
  "config_wf default_config \<and> src_index demo_video_ui = 1 \<and>
   script_run default_config (stub_lib (Some (replicate 10 stub_frame)) None) demo_video_ui init_world \<noteq> None"
proof -
  have one: "src_index demo_video_ui = 1"
    by (simp add: demo_video_ui_def demo_ui_def src_index_def)
  then have src: "src_index demo_video_ui \<noteq> 2 \<or> in_stop demo_video_ui" by simp
  show ?thesis
    using default_config_wf one script_run_returns_unless_camera [OF default_config_wf src] by blast
qed

end
