(* ===== verification/Session.thy ===== *)
theory Session
  imports App
begin

text \<open>
  A browser session: Streamlit reruns the whole script on every interaction,
  each run starting from the world the previous one left. What survives a
  run is the model cache of \<^verbatim>\<open>st.cache_resource\<close> (the capture objects are
  locals of their handler and are all closed by the time it returns, so the
  \<open>caps\<close> of the world only record them); the sequence of runs is
  \<open>session\<close>, which stops (\<open>None\<close>) at a run that never returns. The
  consequence proved is that a cached model is never read from disk again in
  the session, whatever the user does.
\<close>

fun session :: "config \<Rightarrow> lib \<Rightarrow> ui_input list \<Rightarrow> world \<Rightarrow> world option" where
  "session cfg L [] w = Some w"
| "session cfg L (ui # uis) w =
     (case script_run cfg L ui w of None \<Rightarrow> None | Some (r, w') \<Rightarrow> session cfg L uis w')"

text \<open>A server whose cache already holds the model, as after a first run.\<close>

definition warm_world :: world where
  "warm_world = init_world\<lparr>cache := [''weights/detection/yolov8n.pt'' \<mapsto> demo_handle], next_obj := 1\<rparr>"

subsection \<open>One run\<close>

text \<open>A run reads a weights file only for a path that was not cached when it started, and drops no cache entry.\<close>

lemma script_run_loads:
  assumes cfg: "config_wf cfg" and run: "script_run cfg L ui w = Some (r, w')"
  shows "(\<forall>q h. cache w q = Some h \<longrightarrow> cache w' q = Some h) \<and>
         (\<exists>new. trace w' = trace w @ new \<and> (\<forall>q. ModelLoad q \<in> set new \<longrightarrow> cache w q = None))"
  using run
proof (cases rule: script_run_cases)
  case (no_background e)
  then show ?thesis by auto
next
  case (body bs)
  let ?w0 = "w\<lparr>trace := trace w @ page_events (b64encode bs)\<rparr>"
  from body(2) obtain p w1 res wL model w2 r3 w3 where
    w1: "w1 = ?w0 \<or> w1 = ?w0\<lparr>trace := trace ?w0 @ [StError Main MsgSelectModel]\<rparr>"
    and ld: "load_model L p w1 = (res, wL)"
    and w2: "w2 = wL \<or> w2 = wL\<lparr>trace := trace wL @ [StError Main (MsgLoadFailed p)]\<rparr>"
    and dp: "dispatch cfg L ui (confidence_of (in_conf ui)) model
               (w2\<lparr>trace := trace w2 @ [StHeader HdSourceConfig]\<rparr>) = Some (r3, w3)"
    and w': "w' = w3 \<or> (\<exists>e. w' = w3\<lparr>trace := trace w3 @ [StException e]\<rparr>)"
    by (rule body_run_cases)
  let ?P = "\<lambda>ev. \<forall>q. ev \<noteq> ModelLoad q"
  have a1: "appends ?P w w1"
    using w1 by (auto intro!: appends_events simp: page_events_def)
  have a2: "appends ?P wL (w2\<lparr>trace := trace w2 @ [StHeader HdSourceConfig]\<rparr>)"
    using w2 by (auto intro!: appends_events)
  have a3: "appends ?P (w2\<lparr>trace := trace w2 @ [StHeader HdSourceConfig]\<rparr>) w3"
    using dispatch_appends [OF cfg dp] by (rule appends_mono) (auto elim: handler_event.elims)
  have a4: "appends ?P w3 w'"
    using w' by (auto intro: appends_emit)
  have aL: "appends ?P wL w'"
    using a2 a3 a4 by (blast intro: appends_trans)
  from appends_trace [OF a1] obtain n1 where n1: "trace w1 = trace w @ n1" "list_all ?P n1" by blast
  from appends_trace [OF aL] obtain n2 where n2: "trace w' = trace wL @ n2" "list_all ?P n2" by blast
  have c1: "cache w1 = cache w" using a1 by (simp add: appends_def)
  have c2: "cache w' = cache wL" using aL by (simp add: appends_def)
  have tl: "trace wL = trace w1 @ (if cache w1 p = None then [ModelLoad p] else [])"
    using load_model_trace [of L p w1] ld by simp
  have "trace w' = trace w @ (n1 @ (if cache w1 p = None then [ModelLoad p] else []) @ n2)"
    using n1 n2 tl by simp
  moreover have "ModelLoad q \<in> set (n1 @ (if cache w1 p = None then [ModelLoad p] else []) @ n2) \<Longrightarrow>
      cache w q = None" for q
    using n1(2) n2(2) c1 by (auto simp: list_all_iff split: if_splits)
  moreover have "cache w q = Some h \<Longrightarrow> cache w' q = Some h" for q h
    using load_model_cache_mono [OF ld] c1 c2 by simp
  ultimately show ?thesis by blast
qed

subsection \<open>Sessions\<close>

text \<open>A session returns when none of its runs runs the camera loop with stop not pressed.\<close>

lemma session_returns:
  assumes "config_wf cfg" "read_file L BACKGROUND_IMAGE = Inr bs"
  shows "list_all (\<lambda>ui. src_index ui \<noteq> 2 \<or> in_stop ui) uis \<Longrightarrow> session cfg L uis w \<noteq> None"
proof (induction uis arbitrary: w)
  case Nil
  then show ?case by simp
next
  case (Cons ui uis)
  then have "try_exceptP (app_body cfg L ui) (\<lambda>e. emit (StException e))
      (w\<lparr>trace := trace w @ page_events (b64encode bs)\<rparr>) \<noteq> None"
    using body_run_returns [OF assms(1)] by simp
  then obtain r w1 where "script_run cfg L ui w = Some (r, w1)"
    by (auto simp: script_run_page_ok [OF page_setup_ok [OF assms(2)]])
  with Cons show ?case by simp
qed

text \<open>
  C21. Across a whole session, a model that is in the cache stays there, the
  same object, and its weights file is never read again, whatever the user
  does: the load-once contract of the spec's Model Loader, at the level of
  Streamlit's reruns.
\<close>

theorem session_never_reloads_cached_model:
  assumes "config_wf cfg" "cache w p = Some h" "session cfg L uis w = Some w'"
  shows "cache w' p = Some h \<and> (\<exists>new. trace w' = trace w @ new \<and> ModelLoad p \<notin> set new)"
  using assms(2,3)
proof (induction uis arbitrary: w)
  case Nil
  then show ?case by simp
next
  case (Cons ui uis)
  then obtain r w1 where run: "script_run cfg L ui w = Some (r, w1)" and rest: "session cfg L uis w1 = Some w'"
    by (auto split: option.splits)
  from script_run_loads [OF assms(1) run] Cons.prems(1) obtain n1 where
    c1: "cache w1 p = Some h" and n1: "trace w1 = trace w @ n1" "ModelLoad p \<notin> set n1"
    by fastforce
  from Cons.IH [OF c1 rest] obtain n2 where "cache w' p = Some h" "trace w' = trace w1 @ n2" "ModelLoad p \<notin> set n2"
    by blast
  with n1 show ?case by (intro conjI exI [of _ "n1 @ n2"]) simp_all
qed

theorem session_never_reloads_cached_model_witness:
  "config_wf default_config \<and> cache warm_world ''weights/detection/yolov8n.pt'' = Some demo_handle \<and>
   (\<exists>w'. session default_config (stub_lib None None) [demo_ui, demo_video_ui, demo_ui] warm_world = Some w' \<and>
      cache w' ''weights/detection/yolov8n.pt'' = Some demo_handle \<and>
      (\<exists>new. trace w' = trace warm_world @ new \<and> ModelLoad ''weights/detection/yolov8n.pt'' \<notin> set new))"
proof -
  have c: "cache warm_world ''weights/detection/yolov8n.pt'' = Some demo_handle"
    by (simp add: warm_world_def)
  have rf: "read_file (stub_lib None None) BACKGROUND_IMAGE = Inr [137, 80, 78, 71]"
    by (simp add: stub_lib_def)
  have "list_all (\<lambda>ui. src_index ui \<noteq> 2 \<or> in_stop ui) [demo_ui, demo_video_ui, demo_ui]"
    by (simp add: demo_ui_def demo_video_ui_def src_index_def)
  from session_returns [OF default_config_wf rf this, of warm_world]
  obtain w' where eq: "session default_config (stub_lib None None) [demo_ui, demo_video_ui, demo_ui] warm_world = Some w'"
    by blast
  note th = session_never_reloads_cached_model [OF default_config_wf c eq]
  show ?thesis using default_config_wf c eq th by blast
qed

end
