(* ===== verification/Spec2Isabelle.thy ===== *)
theory Spec2Isabelle
  imports Session
begin

text \<open>
  \<^bold>\<open>A verified model of streamlit-with-recognition.\<close>

  The program is a Streamlit page (\<^verbatim>\<open>src/app.py\<close>) that loads a YOLO model
  and runs it on an uploaded image, an uploaded video or the local camera,
  with the helpers of \<^verbatim>\<open>src/utils.py\<close>. Streamlit runs the whole script from
  the top on every interaction; the only state that survives a run is the
  model cache of \<^verbatim>\<open>@st.cache_resource\<close>, and the page the run leaves behind. The development models one run of the
  script as a function of the widget values (\<open>ui_input\<close>) and a world, and
  every library call as a parameter, so each theorem holds for every
  behaviour of the libraries that meets the stated contracts.

  \<^bold>\<open>Theories and what they model.\<close>
  \<^item> \<open>Prelude\<close>: Python exceptions (\<open>exn\<close>), statements that may raise
    (\<open>eff\<close>, \<open>bindE\<close>, \<open>try_except\<close>), statements that may not return because
    they contain a loop (\<open>peff\<close>, \<open>bindP\<close>, \<open>try_exceptP\<close>), \<^verbatim>\<open>xs[i]\<close> and unbound
    names; the rule collection \<open>eff_simps\<close>.
  \<^item> \<open>Vision\<close>: images, boxes, detection results, model handles, uploads, and
    the record \<open>lib\<close> of third-party calls (\<^verbatim>\<open>YOLO\<close>, \<^verbatim>\<open>predict\<close>,
    \<^verbatim>\<open>cv2.resize\<close>, \<^verbatim>\<open>Image.open\<close>, the video decoder, the camera); the BGR/RGB
    channel flip \<open>flip_channels\<close> of \<^verbatim>\<open>[:, :, ::-1]\<close>.
  \<^item> \<open>World\<close>: the world record (\<open>trace\<close>: the log of page elements and calls;
    \<open>cache\<close>: the model cache; \<open>caps\<close>: the capture objects), the Streamlit
    elements and widgets the code calls, the OpenCV capture object
    (\<open>VideoCapture\<close>, \<open>cap_isOpened\<close>, \<open>cap_read\<close>, \<open>cap_release\<close>), what a
    placeholder shows, and the relation \<open>appends\<close> (a statement only appends
    events of a given kind and leaves the cache alone). A capture object
    is a local of the handler that creates it: CPython frees it when the
    handler returns, and the destructor of \<^verbatim>\<open>cv2.VideoCapture\<close> closes a
    source that is still open. \<open>local_scope\<close> runs a handler body and then
    \<open>cap_free\<close>, the destructor, on every capture the body created; the
    destructor logs \<open>CapFree\<close> only when it has a device to close, so the
    trace tells an explicit \<^verbatim>\<open>release()\<close> from a release by destruction.
  \<^item> \<open>Config\<close>: the module \<^verbatim>\<open>config\<close>, which is not among the sources; modelled
    from the spec (model directory, model list, the three sources).
  \<^item> \<open>Loader\<close>: \<^verbatim>\<open>load_model\<close> under \<^verbatim>\<open>st.cache_resource\<close> (\<open>load_model\<close>), the
    cache invariant \<open>cache_wf\<close>, and repeated loads \<open>load_seq\<close>.
  \<^item> \<open>Frames\<close>: \<^verbatim>\<open>_display_detected_frames\<close> (\<open>display_detected_frames\<close>,
    \<open>predict\<close>) and the read loop shared by the video and camera handlers
    (\<open>frame_loop\<close>), with its outcome per frame (\<open>frame_outcome\<close>).
  \<^item> \<open>ImageInfer\<close>, \<open>VideoInfer\<close>, \<open>Webcam\<close>: \<^verbatim>\<open>infer_uploaded_image\<close>,
    \<^verbatim>\<open>infer_uploaded_video\<close>, \<^verbatim>\<open>infer_uploaded_webcam\<close>, each handler whole,
    with its guards, its \<^verbatim>\<open>try\<close> blocks and its \<^verbatim>\<open>st.error\<close> calls. The
    video and camera handlers are a body (\<open>infer_uploaded_video_body\<close>,
    \<open>infer_uploaded_webcam_body\<close>) run under \<open>local_scope\<close>.
  \<^item> \<open>PageSetup\<close>: lines 12--82 of \<^verbatim>\<open>src/app.py\<close>: the background file read
    and base64-encoded (\<open>get_image_base64\<close>, \<open>b64encode\<close> as RFC 4648 and
    \<^verbatim>\<open>base64.b64encode\<close> define it), the page configuration, the style block, the title and the
    first sidebar header (\<open>page_setup\<close>).
  \<^item> \<open>App\<close>: the script of \<^verbatim>\<open>src/app.py\<close>: lines 84--128 as \<open>app_body\<close>
    (\<open>sidebar_model\<close>, \<open>load_block\<close>, the header of line 115, \<open>dispatch\<close>),
    the whole script \<open>app_main\<close> (page setup, then body), and Streamlit's
    runner, which shows an exception that leaves the script (\<open>script_run\<close>).
  \<^item> \<open>Session\<close>: a browser session as the sequence of Streamlit's reruns
    (\<open>session\<close>), threading the model cache.
  \<^item> This theory: what the page shows of the model's annotated plot, across
    the image and the video paths.

  \<^bold>\<open>Loops and termination.\<close> The \<^verbatim>\<open>while\<close> loops of the video and camera
  handlers read until a read fails or a frame raises; a camera may deliver
  frames for ever. The loop is therefore a \<open>partial_function (option)\<close>:
  \<open>None\<close> is a run that never returns. No fuel bound is used. Every theorem that
  says a handler returns proves the value \<open>Some\<close> (\<open>frame_loop_returns\<close>,
  \<open>frame_loop_all_ok\<close>), and \<open>frame_loop_diverges\<close> proves \<open>None\<close> for a
  camera that never fails; C2 is the resulting characterisation, and C20
  says which whole runs return.

  \<^bold>\<open>Lemma groups.\<close>
  \<^item> Loader (C6--C8): a second call with the same path returns the same object
    and changes nothing; the cache invariant is kept; a path is read from
    disk at most once over any sequence of loads.
  \<^item> Video (C1, C9--C11): a decodable video is played to its end with one
    inference and one placeholder update per frame and one release (the
    spec's ten-frame scenario is the witness of C1); a frame that raises
    ends the loop with the error shown and no \<^verbatim>\<open>release()\<close>, the decoder
    being closed only by the destructor on return; an undecodable file is
    not reported; every frame goes to the one placeholder.
  \<^item> Camera (C2--C5): when the handler returns; the stop path runs no
    inference and never calls \<^verbatim>\<open>release()\<close>, the device being closed by the
    destructor on return; a camera that fails after N frames; an absent
    camera is not reported.
  \<^item> Image (C12--C14): one inference and the exact page; every listed box
    meets the threshold under the model's contract; an inference error ends
    the run uncaught.
  \<^item> Script (C15--C17): a failed load leads to NameError; every inference of
    a run uses the slider's threshold, which lies in [0.3, 1]; the fallback
    errors are unreachable.
  \<^item> Presentation (C18): both paths show the model's BGR plot converted to RGB.
  \<^item> Page setup (C19): a missing background file ends every run at line 18
    with only the exception on the page.
  \<^item> Whole runs (C20): every run returns unless it runs the camera loop with
    stop not pressed (the video loop always ends, since a decoded video has
    finitely many frames).
  \<^item> Sessions (C21): a cached model is never read from disk again in any
    sequence of reruns.

  \<^bold>\<open>Not modelled.\<close> The fixed text of the CSS block (lines 29--75) is
  represented only by the data URL it embeds; the texts of titles, captions
  and messages are constructors, not their Chinese strings;
  \<^verbatim>\<open>st.spinner\<close>, \<^verbatim>\<open>st.columns\<close> and \<^verbatim>\<open>use_column_width\<close> only lay out. The libraries themselves are
  parameters: the decoder is the list of frames it yields, the camera the
  function from read number to frame, the model a function from weights,
  image and threshold to results. Python floats are modelled by rationals.
  The display height \<open>int(720 * (9 / 16)) = 405\<close> is computed exactly by
  the floats too (9/16 and 405 are doubles). The threshold is the exact
  rational \<open>v / 100\<close>, whereas the code passes the double nearest to it
  (0.3 is not a double); the theorems about the threshold are about the
  value passed to the model, which the model compares with its scores.
\<close>

text \<open>What a page element shows of an array image, in RGB.\<close>

fun shown_plot :: "event \<Rightarrow> img list" where
  "shown_plot (StImage _ (FromArray im) _ ch) = [shown_rgb ch im]"
| "shown_plot _ = []"

text \<open>
  C18. The image handler and the frame display show the model's annotated
  plot (which ultralytics draws in BGR order) in the same, correct colours:
  the image path reverses the channels and declares RGB, the video path
  declares BGR; both present \<open>flip_channels\<close> of the plot, and nothing else.
\<close>

theorem plots_shown_in_rgb:
  assumes "file_uploader (Some IMAGE_TYPES) upl = Some f" "pil_open L f = Inr im"
    and "predict_fn L (h_weights h) im c = Inr (r # rs)"
    and "resize_fn L fr (720, display_height) = Inr fr'"
    and "predict_fn L (h_weights h) fr' c = Inr (r' # rs')"
  shows "(\<exists>new. snd (infer_uploaded_image L c h upl True w) = w\<lparr>trace := trace w @ new\<rparr> \<and>
            concat (map shown_plot new) = [flip_channels (res_plot r)]) \<and>
         (\<exists>new. snd (display_detected_frames L c h s fr w) = w\<lparr>trace := trace w @ new\<rparr> \<and>
            concat (map shown_plot new) = [flip_channels (res_plot r')])"
proof
  show "\<exists>new. snd (infer_uploaded_image L c h upl True w) = w\<lparr>trace := trace w @ new\<rparr> \<and>
            concat (map shown_plot new) = [flip_channels (res_plot r)]"
    using assms(1-3) by (simp add: infer_uploaded_image_cases)
      (rule exI, rule conjI, rule refl, simp add: shown_rgb_def)
  show "\<exists>new. snd (display_detected_frames L c h s fr w) = w\<lparr>trace := trace w @ new\<rparr> \<and>
            concat (map shown_plot new) = [flip_channels (res_plot r')]"
    using assms(4,5) by (simp add: display_detected_frames_eq frame_outcome_def)
      (rule exI, rule conjI, rule refl, simp add: shown_rgb_def)
qed

theorem plots_shown_in_rgb_witness:
  "(\<exists>new. snd (infer_uploaded_image (stub_lib None None) (1/2) demo_handle (Some image_upload) True init_world) =
          init_world\<lparr>trace := trace init_world @ new\<rparr> \<and>
          concat (map shown_plot new) = [flip_channels stub_frame]) \<and>
   (\<exists>new. snd (display_detected_frames (stub_lib None None) (1/2) demo_handle 0 stub_frame init_world) =
          init_world\<lparr>trace := trace init_world @ new\<rparr> \<and>
          concat (map shown_plot new) = [flip_channels (stub_frame\<lparr>img_w := 720, img_h := 405\<rparr>)])"
proof -
  have up: "file_uploader (Some IMAGE_TYPES) (Some image_upload) = Some image_upload"
    using image_upload_accepted by (simp add: file_uploader_image)
  show ?thesis
    using plots_shown_in_rgb [where L = "stub_lib None None" and upl = "Some image_upload" and f = image_upload
        and im = stub_frame and h = demo_handle and c = "1/2" and r = "\<lparr>res_boxes = [], res_plot = stub_frame\<rparr>"
        and rs = "[]" and fr = stub_frame and fr' = "stub_frame\<lparr>img_w := 720, img_h := 405\<rparr>"
        and r' = "\<lparr>res_boxes = [], res_plot = stub_frame\<lparr>img_w := 720, img_h := 405\<rparr>\<rparr>" and rs' = "[]"
        and w = init_world and s = 0, OF up]
    by (simp add: stub_lib_def display_height_eq)
qed

end
